theory Spec2Isabelle
  imports Complex_Main
begin

section \<open>Values, tables and exceptions\<close>

text \<open>
  The program is one Streamlit script, \<^verbatim>\<open>app.py\<close>. It builds a one-row pandas
  DataFrame from the sidebar widgets, and it has a batch path that reads an uploaded
  CSV file, calls the loaded model on it and appends three columns.

  A DataFrame is modelled by its columns in order: a list of pairs of a column name and
  the list of the column's cells. A cell is a Python scalar as it occurs here: an integer,
  a float (its value as a real number), a string, or pandas' missing value.
  A Python exception is modelled by its class name and by what \<^verbatim>\<open>str(e)\<close> gives, and
  by whether its class derives from \<^verbatim>\<open>Exception\<close>: SystemExit, KeyboardInterrupt,
  GeneratorExit and the exceptions by which Streamlit stops or reruns a script derive
  from \<^verbatim>\<open>BaseException\<close> only.
  Strings are byte strings in UTF-8: the icons of the messages are written by their bytes.
\<close>

datatype cell = IntV int | FloatV real | StrV string | NaN

type_synonym column = "string \<times> cell list"

type_synonym table = "column list"

datatype py_exception =
    is_Exception: PyException (exc_type: string) (exc_str: string)
  | PyBaseException (exc_type: string) (exc_str: string)

definition columns :: "table \<Rightarrow> string list" where
  "columns df = map fst df"

definition nrows :: "table \<Rightarrow> nat" where
  "nrows df = (case df of [] \<Rightarrow> 0 | (_, vs) # _ \<Rightarrow> length vs)"

definition quoted :: "string \<Rightarrow> string" where
  \<comment> \<open>\<^verbatim>\<open>repr\<close> of a string without quotes or escapes inside: the text between two \<^verbatim>\<open>'\<close>\<close>
  "quoted s = [CHR 0x27] @ s @ [CHR 0x27]"

definition dict_getitem :: "(string \<times> 'v) list \<Rightarrow> string \<Rightarrow> py_exception + 'v" where
  \<comment> \<open>\<^verbatim>\<open>d[k]\<close> on a dict literal: a missing key raises KeyError\<close>
  "dict_getitem d k =
     (case map_of d k of
        None \<Rightarrow> Inl (PyException ''KeyError'' (quoted k))
      | Some v \<Rightarrow> Inr v)"

section \<open>Form encoder\<close>

subsection \<open>The sidebar widgets\<close>

text \<open>
  The option list of each \<^verbatim>\<open>selectbox\<close> and the bounds of the slider, as the script
  gives them (lines 66 to 140). A widget returns one of its options.
\<close>

definition year_options :: "int list" where
  "year_options = [2013]"

definition age_group_min :: int where
  "age_group_min = 1"

definition age_group_max :: int where
  "age_group_max = 13"

definition race_eth_options :: "int list" where
  "race_eth_options = [1, 2, 3, 4, 5, 6]"

definition first_degree_hx_options :: "int list" where
  "first_degree_hx_options = [0, 1]"

definition biophx_options :: "int list" where
  "biophx_options = [0, 1]"

definition age_menarche_options :: "string list" where
  "age_menarche_options = [''Late'', ''Early'', ''Normal'']"

definition age_menarche_map :: "(string \<times> int) list" where
  "age_menarche_map = [(''Late'', 0), (''Early'', 1), (''Normal'', 2)]"

definition age_first_birth_options :: "string list" where
  "age_first_birth_options = [''Early'', ''Normal'', ''Late'', ''Very Late'']"

definition age_first_birth_map :: "(string \<times> int) list" where
  "age_first_birth_map =
     [(''Early'', 1), (''Normal'', 2), (''Late'', 3), (''Very Late'', 4)]"

definition menopaus_options :: "string list" where
  "menopaus_options = [''Pre'', ''Post'', ''Peri'']"

definition menopaus_map :: "(string \<times> int) list" where
  "menopaus_map = [(''Pre'', 1), (''Post'', 2), (''Peri'', 3)]"

definition birads_density_options :: "int list" where
  "birads_density_options = [1, 2, 3, 4]"

definition current_hrt_options :: "int list" where
  "current_hrt_options = [0, 1]"

definition bmi_group_options :: "int list" where
  "bmi_group_options = [1, 2, 3, 4]"

text \<open>What the widgets return in one run of the script.\<close>

record selections =
  year :: int
  age_group :: int
  race_eth :: int
  first_degree_hx :: int
  biophx :: int
  age_menarche_label :: string
  age_first_birth_label :: string
  menopaus_label :: string
  birads_density :: int
  current_hrt :: int
  bmi_group :: int

definition selectable :: "selections \<Rightarrow> bool" where
  \<comment> \<open>each value is one that its widget offers\<close>
  "selectable w \<longleftrightarrow>
     List.member year_options (year w) \<and>
     age_group_min \<le> age_group w \<and> age_group w \<le> age_group_max \<and>
     List.member race_eth_options (race_eth w) \<and>
     List.member first_degree_hx_options (first_degree_hx w) \<and>
     List.member biophx_options (biophx w) \<and>
     List.member age_menarche_options (age_menarche_label w) \<and>
     List.member age_first_birth_options (age_first_birth_label w) \<and>
     List.member menopaus_options (menopaus_label w) \<and>
     List.member birads_density_options (birads_density w) \<and>
     List.member current_hrt_options (current_hrt w) \<and>
     List.member bmi_group_options (bmi_group w)"

subsection \<open>The input DataFrame\<close>

definition DataFrame :: "(string \<times> cell list) list \<Rightarrow> table" where
  \<comment> \<open>\<^verbatim>\<open>pd.DataFrame(dict)\<close> on a dict literal with distinct keys: the columns in the
      order of the literal\<close>
  "DataFrame d = d"

definition input_df :: "selections \<Rightarrow> py_exception + table" where
  \<comment> \<open>lines 91, 92, 98 to 104, 110, 111 and 143 to 155\<close>
  "input_df w =
     (case dict_getitem age_menarche_map (age_menarche_label w) of
        Inl e \<Rightarrow> Inl e
      | Inr age_menarche \<Rightarrow>
     (case dict_getitem age_first_birth_map (age_first_birth_label w) of
        Inl e \<Rightarrow> Inl e
      | Inr age_first_birth \<Rightarrow>
     (case dict_getitem menopaus_map (menopaus_label w) of
        Inl e \<Rightarrow> Inl e
      | Inr menopaus \<Rightarrow>
          Inr (DataFrame
            [(''year'', [IntV (year w)]),
             (''age_group_5_years'', [IntV (age_group w)]),
             (''race_eth'', [IntV (race_eth w)]),
             (''first_degree_hx'', [IntV (first_degree_hx w)]),
             (''age_menarche'', [IntV age_menarche]),
             (''age_first_birth'', [IntV age_first_birth]),
             (''BIRADS_breast_density'', [IntV (birads_density w)]),
             (''current_hrt'', [IntV (current_hrt w)]),
             (''menopaus'', [IntV menopaus]),
             (''bmi_group'', [IntV (bmi_group w)]),
             (''biophx'', [IntV (biophx w)])]))))"

definition feature_columns :: "string list" where
  \<comment> \<open>the eleven column names of the Feature Record, in the order of the spec's table\<close>
  "feature_columns =
     [''year'', ''age_group_5_years'', ''race_eth'', ''first_degree_hx'', ''age_menarche'',
      ''age_first_birth'', ''BIRADS_breast_density'', ''current_hrt'', ''menopaus'',
      ''bmi_group'', ''biophx'']"

definition spec_example :: selections where
  \<comment> \<open>the example input of the spec\<close>
  "spec_example =
     \<lparr>year = 2013, age_group = 7, race_eth = 1, first_degree_hx = 0, biophx = 0,
      age_menarche_label = ''Normal'', age_first_birth_label = ''Normal'',
      menopaus_label = ''Pre'', birads_density = 2, current_hrt = 0, bmi_group = 2\<rparr>"

definition other_example :: selections where
  "other_example =
     \<lparr>year = 2013, age_group = 13, race_eth = 6, first_degree_hx = 1, biophx = 1,
      age_menarche_label = ''Late'', age_first_birth_label = ''Very Late'',
      menopaus_label = ''Peri'', birads_density = 4, current_hrt = 1, bmi_group = 3\<rparr>"

section \<open>Page elements and the label of the single-record predictor\<close>

definition warning_icon :: string where
  \<comment> \<open>U+26A0 U+FE0F\<close>
  "warning_icon = [CHR 0xE2, CHR 0x9A, CHR 0xA0, CHR 0xEF, CHR 0xB8, CHR 0x8F]"

definition check_icon :: string where
  \<comment> \<open>U+2705\<close>
  "check_icon = [CHR 0xE2, CHR 0x9C, CHR 0x85]"

definition cross_icon :: string where
  \<comment> \<open>U+274C\<close>
  "cross_icon = [CHR 0xE2, CHR 0x9D, CHR 0x8C]"

definition page_icon :: string where
  \<comment> \<open>U+1F4C4\<close>
  "page_icon = [CHR 0xF0, CHR 0x9F, CHR 0x93, CHR 0x84]"

definition chart_icon :: string where
  \<comment> \<open>U+1F4CA\<close>
  "chart_icon = [CHR 0xF0, CHR 0x9F, CHR 0x93, CHR 0x8A]"

definition brain_icon :: string where
  \<comment> \<open>U+1F9E0\<close>
  "brain_icon = [CHR 0xF0, CHR 0x9F, CHR 0xA7, CHR 0xA0]"

definition down_icon :: string where
  \<comment> \<open>U+2B07 U+FE0F\<close>
  "down_icon = [CHR 0xE2, CHR 0xAC, CHR 0x87, CHR 0xEF, CHR 0xB8, CHR 0x8F]"

text \<open>
  What the script puts on the page. A spinner is on the page only while its block runs,
  so it is not an element of the page that a run leaves.
\<close>

datatype element =
    Markdown string
  | Subheader string
  | Dataframe table
  | Button string
  | ErrorBox string
  | SuccessBox string
  | DownloadButton (button_label: string) (button_data: string) (file_name: string)
      (mime: string)

definition card_open :: string where
  \<comment> \<open>the text \<^verbatim>\<open><div class='card'>\<close>\<close>
  "card_open = ''<div class='' @ quoted ''card'' @ ''>''"

definition risk_message :: "int \<Rightarrow> element" where
  \<comment> \<open>lines 167 to 170\<close>
  "risk_message pred =
     (if pred = 1 then ErrorBox (warning_icon @ '' High Risk of Breast Cancer'')
      else SuccessBox (check_icon @ '' Low Risk of Breast Cancer''))"

definition single_label :: "int \<Rightarrow> string" where
  \<comment> \<open>the label of the single-record path in the words of the spec: High Risk when the
      prediction is 1, Low Risk otherwise\<close>
  "single_label pred = (if pred = 1 then ''High Risk'' else ''Low Risk'')"

section \<open>Batch predictor\<close>

subsection \<open>The collaborators\<close>

text \<open>
  The loaded pipeline is opaque: its two calls are parameters. Each returns an array, one
  entry per row (class labels, and rows of class probabilities), or raises.
  \<^verbatim>\<open>read_csv\<close> and \<^verbatim>\<open>to_csv(index=False)\<close> are pandas' parser and serialiser, parameters
  as well.
\<close>

record model =
  predict :: "table \<Rightarrow> py_exception + int list"
  predict_proba :: "table \<Rightarrow> py_exception + real list list"

record pandas =
  read_csv :: "string \<Rightarrow> py_exception + table"
  to_csv :: "table \<Rightarrow> string"

text \<open>
  The state of a run: the page rendered so far, the files of the working directory (with
  the paths that cannot be written), and the variable \<^verbatim>\<open>csv_df\<close> (unbound before
  \<^verbatim>\<open>read_csv\<close> returns). A statement either completes or raises; in both cases the
  effects made so far stay.
\<close>

record state =
  page :: "element list"
  files :: "string \<rightharpoonup> string"
  unwritable :: "string list"
  csv_df :: "table option"

datatype outcome = Done state | Raised py_exception state

definition emit :: "element \<Rightarrow> state \<Rightarrow> state" where
  "emit x s = s\<lparr>page := page s @ [x]\<rparr>"

definition write_file :: "string \<Rightarrow> string \<Rightarrow> state \<Rightarrow> outcome" where
  "write_file path content s =
     (if List.member (unwritable s) path
      then Raised (PyException ''PermissionError''
             (''[Errno 13] Permission denied: '' @ quoted path)) s
      else Done (s\<lparr>files := (files s)(path \<mapsto> content)\<rparr>))"

subsection \<open>Column access, pandas and numpy operations\<close>

fun str_nat :: "nat \<Rightarrow> string" where
  "str_nat n =
     (if n < 10 then [char_of (48 + n)]
      else str_nat (n div 10) @ [char_of (48 + n mod 10)])"

declare str_nat.simps [simp del]

definition get_column :: "table \<Rightarrow> string \<Rightarrow> py_exception + cell list" where
  \<comment> \<open>\<^verbatim>\<open>df[name]\<close>\<close>
  "get_column df name =
     (case map_of df name of
        None \<Rightarrow> Inl (PyException ''KeyError'' (quoted name))
      | Some vs \<Rightarrow> Inr vs)"

definition put_column :: "table \<Rightarrow> string \<Rightarrow> cell list \<Rightarrow> table" where
  \<comment> \<open>a column of that name takes the new cells where it stands; a new name is appended\<close>
  "put_column df name vals =
     (if List.member (columns df) name
      then map (\<lambda>(k, vs). if k = name then (k, vals) else (k, vs)) df
      else df @ [(name, vals)])"

definition reindexed :: "table \<Rightarrow> nat \<Rightarrow> table" where
  \<comment> \<open>a table without rows takes a new index of \<open>n\<close> rows: every cell is missing\<close>
  "reindexed df n = map (\<lambda>(k, vs). (k, replicate n NaN)) df"

definition set_column :: "table \<Rightarrow> string \<Rightarrow> cell list \<Rightarrow> py_exception + table" where
  \<comment> \<open>\<^verbatim>\<open>df[name] = vals\<close> for an array or a Series on the same index. A table without
      rows takes its index from a value that is not empty, and its columns are filled
      with NaN; otherwise the length of the value must be the number of rows.\<close>
  "set_column df name vals =
     (if nrows df = 0
      then Inr (put_column (if vals = [] then df else reindexed df (length vals)) name vals)
      else if length vals \<noteq> nrows df
      then Inl (PyException ''ValueError''
             (''Length of values ('' @ str_nat (length vals) @
              '') does not match length of index ('' @ str_nat (nrows df) @ '')''))
      else Inr (put_column df name vals))"

definition risk_label_dict :: "(cell \<times> cell) list" where
  \<comment> \<open>lines 200 to 202\<close>
  "risk_label_dict = [(IntV 0, StrV ''Low Risk''), (IntV 1, StrV ''High Risk'')]"

definition series_map :: "(cell \<times> cell) list \<Rightarrow> cell list \<Rightarrow> cell list" where
  \<comment> \<open>\<^verbatim>\<open>Series.map(dict)\<close>: a value that is no key of the dict becomes NaN\<close>
  "series_map d vs = map (\<lambda>v. case map_of d v of None \<Rightarrow> NaN | Some l \<Rightarrow> l) vs"

fun row_max :: "real list \<Rightarrow> py_exception + real" where
  "row_max [] =
     Inl (PyException ''ValueError''
       ''zero-size array to reduction operation maximum which has no identity'')"
| "row_max (x # xs) = Inr (fold max xs x)"

fun max_axis1 :: "real list list \<Rightarrow> py_exception + real list" where
  \<comment> \<open>\<^verbatim>\<open>probs.max(axis=1)\<close>\<close>
  "max_axis1 [] = Inr []"
| "max_axis1 (r # rs) =
     (case row_max r of
        Inl e \<Rightarrow> Inl e
      | Inr c \<Rightarrow> (case max_axis1 rs of Inl e \<Rightarrow> Inl e | Inr cs \<Rightarrow> Inr (c # cs)))"

subsection \<open>The batch path\<close>

definition predict_csv :: "model \<Rightarrow> pandas \<Rightarrow> table \<Rightarrow> state \<Rightarrow> outcome" where
  \<comment> \<open>lines 195 to 217, entered with \<^verbatim>\<open>csv_df\<close> bound to \<open>df\<close>\<close>
  "predict_csv m pd df s =
     (case predict m df of Inl e \<Rightarrow> Raised e s | Inr preds \<Rightarrow>
     (case predict_proba m df of Inl e \<Rightarrow> Raised e s | Inr probs \<Rightarrow>
     (case set_column df ''prediction'' (map IntV preds) of
        Inl e \<Rightarrow> Raised e s
      | Inr df1 \<Rightarrow>
     (case get_column df1 ''prediction'' of
        Inl e \<Rightarrow> Raised e (s\<lparr>csv_df := Some df1\<rparr>)
      | Inr prediction \<Rightarrow>
     (case set_column df1 ''risk_label'' (series_map risk_label_dict prediction) of
        Inl e \<Rightarrow> Raised e (s\<lparr>csv_df := Some df1\<rparr>)
      | Inr df2 \<Rightarrow>
     (case max_axis1 probs of
        Inl e \<Rightarrow> Raised e (s\<lparr>csv_df := Some df2\<rparr>)
      | Inr confidence \<Rightarrow>
     (case set_column df2 ''confidence'' (map FloatV confidence) of
        Inl e \<Rightarrow> Raised e (s\<lparr>csv_df := Some df2\<rparr>)
      | Inr df3 \<Rightarrow>
     (case write_file ''unknown_predictions.csv'' (to_csv pd df3) (s\<lparr>csv_df := Some df3\<rparr>) of
        Raised e s' \<Rightarrow> Raised e s'
      | Done s' \<Rightarrow>
          Done (emit (Markdown ''</div>'')
               (emit (DownloadButton (down_icon @ '' Download unknown_predictions.csv'')
                        (to_csv pd df3) ''unknown_predictions.csv'' ''text/csv'')
               (emit (Dataframe df3)
               (emit (Subheader (brain_icon @ '' Prediction Results''))
               (emit (Markdown card_open) s')))))))))))))"

definition csv_try_body :: "model \<Rightarrow> pandas \<Rightarrow> string \<Rightarrow> bool \<Rightarrow> state \<Rightarrow> outcome" where
  \<comment> \<open>lines 187 to 217: the body of the \<^verbatim>\<open>try\<close>; \<open>clicked\<close> is what the button returns\<close>
  "csv_try_body m pd uploaded_file clicked s =
     (case read_csv pd uploaded_file of
        Inl e \<Rightarrow> Raised e s
      | Inr df \<Rightarrow>
          (let s' = emit (Button (chart_icon @ '' Predict CSV''))
                   (emit (Markdown ''</div>'')
                   (emit (Dataframe df)
                   (emit (Subheader (page_icon @ '' Uploaded CSV''))
                   (emit (Markdown card_open) (s\<lparr>csv_df := Some df\<rparr>)))))
           in if clicked then predict_csv m pd df s' else Done s'))"

definition csv_error :: "py_exception \<Rightarrow> element" where
  \<comment> \<open>line 220\<close>
  "csv_error e = ErrorBox (cross_icon @ '' CSV Error: '' @ exc_str e)"

definition csv_upload ::
  "model \<Rightarrow> pandas \<Rightarrow> string option \<Rightarrow> bool \<Rightarrow> state \<Rightarrow> outcome" where
  \<comment> \<open>lines 185 to 220; \<^verbatim>\<open>except Exception\<close> handles the instances of \<^verbatim>\<open>Exception\<close>
      and lets every other exception pass\<close>
  "csv_upload m pd uploaded_file clicked s =
     (case uploaded_file of
        None \<Rightarrow> Done s
      | Some f \<Rightarrow>
          (case csv_try_body m pd f clicked s of
             Done s' \<Rightarrow> Done s'
           | Raised e s' \<Rightarrow>
               (if is_Exception e then Done (emit (csv_error e) s') else Raised e s')))"

subsection \<open>Observations of a run\<close>

definition assigned :: "table \<Rightarrow> string \<Rightarrow> cell list \<Rightarrow> table" where
  \<comment> \<open>the table after \<^verbatim>\<open>df[name] = vals\<close>, when the assignment raises nothing\<close>
  "assigned df name vals =
     put_column (if nrows df = 0 \<and> vals \<noteq> [] then reindexed df (length vals) else df)
       name vals"

definition augmented :: "table \<Rightarrow> int list \<Rightarrow> real list \<Rightarrow> table" where
  \<comment> \<open>the three column assignments of lines 199 to 203, when none of them raises\<close>
  "augmented df preds confidence =
     assigned
       (assigned (assigned df ''prediction'' (map IntV preds))
          ''risk_label'' (series_map risk_label_dict (map IntV preds)))
       ''confidence'' (map FloatV confidence)"

definition batch_output :: "model \<Rightarrow> pandas \<Rightarrow> string \<Rightarrow> state \<Rightarrow> table option" where
  \<comment> \<open>the table that a batch prediction leaves in \<^verbatim>\<open>csv_df\<close> when nothing raises\<close>
  "batch_output m pd f s =
     (case csv_try_body m pd f True s of Done s' \<Rightarrow> csv_df s' | Raised e s' \<Rightarrow> None)"

subsection \<open>Example runs\<close>

text \<open>
  A small pipeline and some uploads, to run the batch path on. The pipeline reads the
  column bmi_group and predicts class 1 with probabilities 1/4 and 3/4 for the group 4,
  class 0 with probabilities 7/8 and 1/8 otherwise; without that column it raises KeyError.
  The parser stands for pandas on four uploads and on the empty file, where pandas raises
  EmptyDataError; it refuses any other text.
\<close>

definition toy_predict :: "table \<Rightarrow> py_exception + int list" where
  "toy_predict df =
     (case get_column df ''bmi_group'' of
        Inl e \<Rightarrow> Inl e
      | Inr vs \<Rightarrow> Inr (map (\<lambda>v. if v = IntV 4 then 1 else 0) vs))"

definition toy_predict_proba :: "table \<Rightarrow> py_exception + real list list" where
  "toy_predict_proba df =
     (case get_column df ''bmi_group'' of
        Inl e \<Rightarrow> Inl e
      | Inr vs \<Rightarrow> Inr (map (\<lambda>v. if v = IntV 4 then [1/4, 3/4] else [7/8, 1/8]) vs))"

definition toy_model :: model where
  "toy_model = \<lparr>predict = toy_predict, predict_proba = toy_predict_proba\<rparr>"

definition half_model :: model where
  \<comment> \<open>a pipeline whose second call raises\<close>
  "half_model =
     \<lparr>predict = toy_predict,
      predict_proba = (\<lambda>df. Inl (PyException ''AttributeError'' ''predict_proba''))\<rparr>"

definition interrupted_model :: model where
  \<comment> \<open>a pipeline whose first call is interrupted from the keyboard\<close>
  "interrupted_model =
     \<lparr>predict = (\<lambda>df. Inl (PyBaseException ''KeyboardInterrupt'' [])),
      predict_proba = toy_predict_proba\<rparr>"

definition exiting_model :: model where
  \<comment> \<open>a pipeline whose second call exits the interpreter\<close>
  "exiting_model =
     \<lparr>predict = toy_predict,
      predict_proba = (\<lambda>df. Inl (PyBaseException ''SystemExit'' ''1''))\<rparr>"

definition two_rows_csv :: string where
  "two_rows_csv = ''bmi_group'' @ [CHR 0x0A] @ ''2'' @ [CHR 0x0A] @ ''4'' @ [CHR 0x0A]"

definition wrong_column_csv :: string where
  "wrong_column_csv = ''bmi'' @ [CHR 0x0A] @ ''2'' @ [CHR 0x0A]"

definition predicted_csv :: string where
  "predicted_csv = ''bmi_group,prediction'' @ [CHR 0x0A] @ ''4,7'' @ [CHR 0x0A]"

definition header_only_csv :: string where
  "header_only_csv = ''bmi_group'' @ [CHR 0x0A]"

definition toy_read_csv :: "string \<Rightarrow> py_exception + table" where
  "toy_read_csv f =
     (if f = [] then Inl (PyException ''EmptyDataError'' ''No columns to parse from file'')
      else if f = two_rows_csv then Inr [(''bmi_group'', [IntV 2, IntV 4])]
      else if f = wrong_column_csv then Inr [(''bmi'', [IntV 2])]
      else if f = predicted_csv then Inr [(''bmi_group'', [IntV 4]), (''prediction'', [IntV 7])]
      else if f = header_only_csv then Inr [(''bmi_group'', [])]
      else Inl (PyException ''ParserError'' ''Error tokenizing data''))"

definition toy_to_csv :: "table \<Rightarrow> string" where
  \<comment> \<open>only the header line: enough to tell the tables of the example runs apart\<close>
  "toy_to_csv df = concat (map (\<lambda>k. k @ '','') (columns df))"

definition toy_pandas :: pandas where
  "toy_pandas = \<lparr>read_csv = toy_read_csv, to_csv = toy_to_csv\<rparr>"

definition fresh_run :: state where
  "fresh_run = \<lparr>page = [], files = Map.empty, unwritable = [], csv_df = None\<rparr>"

definition stub_model :: "int list \<Rightarrow> real list list \<Rightarrow> model" where
  \<comment> \<open>a pipeline that returns the same two arrays for every table\<close>
  "stub_model preds probs = \<lparr>predict = (\<lambda>df. Inr preds), predict_proba = (\<lambda>df. Inr probs)\<rparr>"

definition locked_run :: state where
  \<comment> \<open>a run in a directory where the output file cannot be written\<close>
  "locked_run =
     \<lparr>page = [], files = Map.empty, unwritable = [''unknown_predictions.csv''],
      csv_df = None\<rparr>"

subsection \<open>What the user sees of an exception\<close>

abbreviation surfaced ::
  "model \<Rightarrow> pandas \<Rightarrow> string \<Rightarrow> bool \<Rightarrow> state \<Rightarrow> py_exception \<Rightarrow> bool" where
  "surfaced m pd f clicked s e \<equiv>
     (\<exists>s1. csv_try_body m pd f clicked s = Raised e s1 \<and>
           csv_upload m pd (Some f) clicked s =
             Done (s1\<lparr>page := page s1 @
               [ErrorBox (cross_icon @ '' CSV Error: '' @ exc_str e)]\<rparr>))"

section \<open>Properties of the form encoder\<close>

lemma age_menarche_lookup:
  "List.member age_menarche_options l \<Longrightarrow>
     \<exists>c. map_of age_menarche_map l = Some c \<and> 0 \<le> c \<and> c \<le> 2"
  by (auto simp: age_menarche_options_def age_menarche_map_def)

lemma age_first_birth_lookup:
  "List.member age_first_birth_options l \<Longrightarrow>
     \<exists>c. map_of age_first_birth_map l = Some c \<and> 1 \<le> c \<and> c \<le> 4"
  by (auto simp: age_first_birth_options_def age_first_birth_map_def)

lemma menopaus_lookup:
  "List.member menopaus_options l \<Longrightarrow>
     \<exists>c. map_of menopaus_map l = Some c \<and> 1 \<le> c \<and> c \<le> 3"
  by (auto simp: menopaus_options_def menopaus_map_def)

lemma input_df_spec_example:
  "input_df spec_example =
     Inr [(''year'', [IntV 2013]), (''age_group_5_years'', [IntV 7]),
          (''race_eth'', [IntV 1]), (''first_degree_hx'', [IntV 0]),
          (''age_menarche'', [IntV 2]), (''age_first_birth'', [IntV 2]),
          (''BIRADS_breast_density'', [IntV 2]), (''current_hrt'', [IntV 0]),
          (''menopaus'', [IntV 1]), (''bmi_group'', [IntV 2]), (''biophx'', [IntV 0])]"
  by (simp add: input_df_def spec_example_def dict_getitem_def DataFrame_def
      age_menarche_map_def age_first_birth_map_def menopaus_map_def)

lemma input_df_selectable:
  assumes "selectable w"
  shows "\<exists>am afb mp.
      map_of age_menarche_map (age_menarche_label w) = Some am \<and>
      map_of age_first_birth_map (age_first_birth_label w) = Some afb \<and>
      map_of menopaus_map (menopaus_label w) = Some mp \<and>
      input_df w =
        Inr [(''year'', [IntV 2013]),
             (''age_group_5_years'', [IntV (age_group w)]),
             (''race_eth'', [IntV (race_eth w)]),
             (''first_degree_hx'', [IntV (first_degree_hx w)]),
             (''age_menarche'', [IntV am]),
             (''age_first_birth'', [IntV afb]),
             (''BIRADS_breast_density'', [IntV (birads_density w)]),
             (''current_hrt'', [IntV (current_hrt w)]),
             (''menopaus'', [IntV mp]),
             (''bmi_group'', [IntV (bmi_group w)]),
             (''biophx'', [IntV (biophx w)])]"
proof -
  from assms obtain am where am: "map_of age_menarche_map (age_menarche_label w) = Some am"
    using age_menarche_lookup unfolding selectable_def by blast
  from assms obtain afb where
    afb: "map_of age_first_birth_map (age_first_birth_label w) = Some afb"
    using age_first_birth_lookup unfolding selectable_def by blast
  from assms obtain mp where mp: "map_of menopaus_map (menopaus_label w) = Some mp"
    using menopaus_lookup unfolding selectable_def by blast
  from assms have y: "year w = 2013"
    by (simp add: selectable_def year_options_def)
  show ?thesis
    using am afb mp y by (simp add: input_df_def dict_getitem_def DataFrame_def)
qed

text \<open>
  Claim C1. For every combination of values that the widgets offer, the assembled
  DataFrame is one row with exactly the eleven columns year, age_group_5_years, race_eth,
  first_degree_hx, age_menarche, age_first_birth, BIRADS_breast_density, current_hrt,
  menopaus, bmi_group, biophx in this order; each cell is the integer selected, or the
  integer code that the lookup table gives for the selected label. The example input of
  the spec gives the row 2013, 7, 1, 0, 2, 2, 2, 0, 1, 2, 0.
\<close>

theorem input_df_feature_record:
  "(selectable w \<longrightarrow>
      (\<exists>am afb mp df.
         input_df w = Inr df \<and>
         columns df = feature_columns \<and>
         nrows df = 1 \<and>
         map_of age_menarche_map (age_menarche_label w) = Some am \<and>
         map_of age_first_birth_map (age_first_birth_label w) = Some afb \<and>
         map_of menopaus_map (menopaus_label w) = Some mp \<and>
         map snd df =
           [[IntV 2013], [IntV (age_group w)], [IntV (race_eth w)],
            [IntV (first_degree_hx w)], [IntV am], [IntV afb],
            [IntV (birads_density w)], [IntV (current_hrt w)], [IntV mp],
            [IntV (bmi_group w)], [IntV (biophx w)]])) \<and>
   input_df spec_example =
     Inr [(''year'', [IntV 2013]), (''age_group_5_years'', [IntV 7]),
          (''race_eth'', [IntV 1]), (''first_degree_hx'', [IntV 0]),
          (''age_menarche'', [IntV 2]), (''age_first_birth'', [IntV 2]),
          (''BIRADS_breast_density'', [IntV 2]), (''current_hrt'', [IntV 0]),
          (''menopaus'', [IntV 1]), (''bmi_group'', [IntV 2]), (''biophx'', [IntV 0])]"
proof (intro conjI impI)
  assume "selectable w"
  from input_df_selectable [OF this] obtain am afb mp where
    h: "map_of age_menarche_map (age_menarche_label w) = Some am"
       "map_of age_first_birth_map (age_first_birth_label w) = Some afb"
       "map_of menopaus_map (menopaus_label w) = Some mp"
       "input_df w =
        Inr [(''year'', [IntV 2013]),
             (''age_group_5_years'', [IntV (age_group w)]),
             (''race_eth'', [IntV (race_eth w)]),
             (''first_degree_hx'', [IntV (first_degree_hx w)]),
             (''age_menarche'', [IntV am]),
             (''age_first_birth'', [IntV afb]),
             (''BIRADS_breast_density'', [IntV (birads_density w)]),
             (''current_hrt'', [IntV (current_hrt w)]),
             (''menopaus'', [IntV mp]),
             (''bmi_group'', [IntV (bmi_group w)]),
             (''biophx'', [IntV (biophx w)])]"
    by blast
  show "\<exists>am afb mp df.
         input_df w = Inr df \<and>
         columns df = feature_columns \<and>
         nrows df = 1 \<and>
         map_of age_menarche_map (age_menarche_label w) = Some am \<and>
         map_of age_first_birth_map (age_first_birth_label w) = Some afb \<and>
         map_of menopaus_map (menopaus_label w) = Some mp \<and>
         map snd df =
           [[IntV 2013], [IntV (age_group w)], [IntV (race_eth w)],
            [IntV (first_degree_hx w)], [IntV am], [IntV afb],
            [IntV (birads_density w)], [IntV (current_hrt w)], [IntV mp],
            [IntV (bmi_group w)], [IntV (biophx w)]]"
    apply (rule exI [of _ am], rule exI [of _ afb], rule exI [of _ mp])
    using h by (simp add: columns_def feature_columns_def nrows_def)
next
  show "input_df spec_example =
     Inr [(''year'', [IntV 2013]), (''age_group_5_years'', [IntV 7]),
          (''race_eth'', [IntV 1]), (''first_degree_hx'', [IntV 0]),
          (''age_menarche'', [IntV 2]), (''age_first_birth'', [IntV 2]),
          (''BIRADS_breast_density'', [IntV 2]), (''current_hrt'', [IntV 0]),
          (''menopaus'', [IntV 1]), (''bmi_group'', [IntV 2]), (''biophx'', [IntV 0])]"
    by (rule input_df_spec_example)
qed

theorem input_df_feature_record_witness:
  "selectable other_example \<and>
   input_df other_example =
     Inr [(''year'', [IntV 2013]), (''age_group_5_years'', [IntV 13]),
          (''race_eth'', [IntV 6]), (''first_degree_hx'', [IntV 1]),
          (''age_menarche'', [IntV 0]), (''age_first_birth'', [IntV 4]),
          (''BIRADS_breast_density'', [IntV 4]), (''current_hrt'', [IntV 1]),
          (''menopaus'', [IntV 3]), (''bmi_group'', [IntV 3]), (''biophx'', [IntV 1])]"
proof -
  have s: "selectable other_example"
    by (simp add: selectable_def other_example_def year_options_def age_group_min_def
        age_group_max_def race_eth_options_def first_degree_hx_options_def biophx_options_def
        age_menarche_options_def age_first_birth_options_def menopaus_options_def
        birads_density_options_def current_hrt_options_def bmi_group_options_def)
  from input_df_feature_record [of other_example] s have
    "\<exists>am afb mp df.
         input_df other_example = Inr df \<and>
         columns df = feature_columns \<and>
         nrows df = 1 \<and>
         map_of age_menarche_map (age_menarche_label other_example) = Some am \<and>
         map_of age_first_birth_map (age_first_birth_label other_example) = Some afb \<and>
         map_of menopaus_map (menopaus_label other_example) = Some mp \<and>
         map snd df =
           [[IntV 2013], [IntV (age_group other_example)], [IntV (race_eth other_example)],
            [IntV (first_degree_hx other_example)], [IntV am], [IntV afb],
            [IntV (birads_density other_example)], [IntV (current_hrt other_example)],
            [IntV mp], [IntV (bmi_group other_example)], [IntV (biophx other_example)]]"
    by (elim conjE impE) assumption
  then obtain am afb mp df where
    h: "input_df other_example = Inr df" "columns df = feature_columns" "nrows df = 1"
       "map_of age_menarche_map (age_menarche_label other_example) = Some am"
       "map_of age_first_birth_map (age_first_birth_label other_example) = Some afb"
       "map_of menopaus_map (menopaus_label other_example) = Some mp"
       "map snd df =
           [[IntV 2013], [IntV (age_group other_example)], [IntV (race_eth other_example)],
            [IntV (first_degree_hx other_example)], [IntV am], [IntV afb],
            [IntV (birads_density other_example)], [IntV (current_hrt other_example)],
            [IntV mp], [IntV (bmi_group other_example)], [IntV (biophx other_example)]]"
    by (elim exE conjE)
  from h(4) have am: "am = 0"
    by (simp add: other_example_def age_menarche_map_def)
  from h(5) have afb: "afb = 4"
    by (simp add: other_example_def age_first_birth_map_def)
  from h(6) have mp: "mp = 3"
    by (simp add: other_example_def menopaus_map_def)
  have "df = zip (columns df) (map snd df)"
    by (simp add: columns_def zip_map_fst_snd)
  with h(2) h(7) am afb mp have "df =
     [(''year'', [IntV 2013]), (''age_group_5_years'', [IntV 13]),
          (''race_eth'', [IntV 6]), (''first_degree_hx'', [IntV 1]),
          (''age_menarche'', [IntV 0]), (''age_first_birth'', [IntV 4]),
          (''BIRADS_breast_density'', [IntV 4]), (''current_hrt'', [IntV 1]),
          (''menopaus'', [IntV 3]), (''bmi_group'', [IntV 3]), (''biophx'', [IntV 1])]"
    by (simp add: feature_columns_def other_example_def)
  with h(1) s show ?thesis by simp
qed

lemma age_menarche_bij:
  "bij_betw (\<lambda>l. the (map_of age_menarche_map l)) (set age_menarche_options) {0, 1, 2}"
  unfolding bij_betw_def
  by (auto simp: age_menarche_options_def age_menarche_map_def)

lemma age_first_birth_bij:
  "bij_betw (\<lambda>l. the (map_of age_first_birth_map l)) (set age_first_birth_options)
     {1, 2, 3, 4}"
  unfolding bij_betw_def
  by (auto simp: age_first_birth_options_def age_first_birth_map_def)

lemma menopaus_bij:
  "bij_betw (\<lambda>l. the (map_of menopaus_map l)) (set menopaus_options) {1, 2, 3}"
  unfolding bij_betw_def
  by (auto simp: menopaus_options_def menopaus_map_def)

lemma lookup_tables_keys:
  "distinct (map fst age_menarche_map) \<and> map fst age_menarche_map = age_menarche_options \<and>
   distinct (map fst age_first_birth_map) \<and>
   map fst age_first_birth_map = age_first_birth_options \<and>
   distinct (map fst menopaus_map) \<and> map fst menopaus_map = menopaus_options"
  by (simp add: age_menarche_options_def age_menarche_map_def age_first_birth_options_def
      age_first_birth_map_def menopaus_options_def menopaus_map_def)

text \<open>
  Claim C2. Each of the three lookup tables is total on the labels that its widget offers:
  the lookup of an offered label returns a code and raises no KeyError. Each table has
  exactly the offered labels as keys, each once, and it is a bijection between the offered
  labels and its codes: 0 to 2 for the age at menarche, 1 to 4 for the age at first birth,
  1 to 3 for the menopause status. Early is 1 for the age at menarche, Normal is 2 for the
  age at first birth.
\<close>

theorem lookup_tables_total_bijective:
  "(\<forall>l. List.member age_menarche_options l \<longrightarrow>
        (\<exists>c. dict_getitem age_menarche_map l = Inr c)) \<and>
   (\<forall>l. List.member age_first_birth_options l \<longrightarrow>
        (\<exists>c. dict_getitem age_first_birth_map l = Inr c)) \<and>
   (\<forall>l. List.member menopaus_options l \<longrightarrow>
        (\<exists>c. dict_getitem menopaus_map l = Inr c)) \<and>
   distinct (map fst age_menarche_map) \<and> map fst age_menarche_map = age_menarche_options \<and>
   distinct (map fst age_first_birth_map) \<and>
   map fst age_first_birth_map = age_first_birth_options \<and>
   distinct (map fst menopaus_map) \<and> map fst menopaus_map = menopaus_options \<and>
   bij_betw (\<lambda>l. the (map_of age_menarche_map l)) (set age_menarche_options) {0, 1, 2} \<and>
   bij_betw (\<lambda>l. the (map_of age_first_birth_map l)) (set age_first_birth_options)
     {1, 2, 3, 4} \<and>
   bij_betw (\<lambda>l. the (map_of menopaus_map l)) (set menopaus_options) {1, 2, 3} \<and>
   dict_getitem age_menarche_map ''Early'' = Inr 1 \<and>
   dict_getitem age_first_birth_map ''Normal'' = Inr 2"
proof -
  have t1: "\<forall>l. List.member age_menarche_options l \<longrightarrow>
        (\<exists>c. dict_getitem age_menarche_map l = Inr c)"
    using age_menarche_lookup by (fastforce simp: dict_getitem_def)
  have t2: "\<forall>l. List.member age_first_birth_options l \<longrightarrow>
        (\<exists>c. dict_getitem age_first_birth_map l = Inr c)"
    using age_first_birth_lookup by (fastforce simp: dict_getitem_def)
  have t3: "\<forall>l. List.member menopaus_options l \<longrightarrow>
        (\<exists>c. dict_getitem menopaus_map l = Inr c)"
    using menopaus_lookup by (fastforce simp: dict_getitem_def)
  have e1: "dict_getitem age_menarche_map ''Early'' = Inr 1"
    by (simp add: dict_getitem_def age_menarche_map_def)
  have e2: "dict_getitem age_first_birth_map ''Normal'' = Inr 2"
    by (simp add: dict_getitem_def age_first_birth_map_def)
  from t1 t2 t3 e1 e2 lookup_tables_keys age_menarche_bij age_first_birth_bij menopaus_bij
  show ?thesis by blast
qed

theorem lookup_tables_total_bijective_witness:
  "List.member menopaus_options ''Peri'' \<and> dict_getitem menopaus_map ''Peri'' = Inr 3"
proof -
  have m: "List.member menopaus_options ''Peri''"
    by (simp add: menopaus_options_def)
  with lookup_tables_total_bijective obtain c where
    c: "dict_getitem menopaus_map ''Peri'' = Inr c"
    by blast
  then have "c = 3"
    by (simp add: dict_getitem_def menopaus_map_def)
  with m c show ?thesis by simp
qed

section \<open>Properties of the batch predictor\<close>

subsection \<open>Columns\<close>

lemma map_of_replace_same:
  "n \<in> fst ` set df \<Longrightarrow>
     map_of (map (\<lambda>(k, vs). if k = n then (k, v) else (k, vs)) df) n = Some v"
  by (induction df) auto

lemma map_of_replace_other:
  "k \<noteq> n \<Longrightarrow>
     map_of (map (\<lambda>(k, vs). if k = n then (k, v) else (k, vs)) df) k = map_of df k"
  by (induction df) auto

lemma map_of_put_column_same: "map_of (put_column df n v) n = Some v"
proof (cases "n \<in> fst ` set df")
  case True
  then show ?thesis
    by (simp add: put_column_def columns_def map_of_replace_same)
next
  case False
  then have "map_of df n = None"
    by (simp add: map_of_eq_None_iff)
  with False show ?thesis
    by (simp add: put_column_def columns_def map_add_def)
qed

lemma map_of_put_column_other: "k \<noteq> n \<Longrightarrow> map_of (put_column df n v) k = map_of df k"
  by (auto simp: put_column_def columns_def map_of_replace_other map_add_def
      split: option.splits)

lemma get_column_put_column_same: "get_column (put_column df n v) n = Inr v"
  by (simp add: get_column_def map_of_put_column_same)

lemma get_column_put_column_other:
  "k \<noteq> n \<Longrightarrow> get_column (put_column df n v) k = get_column df k"
  by (simp add: get_column_def map_of_put_column_other)

lemma put_column_nonempty: "put_column df n v \<noteq> []"
  by (cases df) (auto simp: put_column_def columns_def)

lemma nrows_put_column:
  "df = [] \<or> length v = nrows df \<Longrightarrow> nrows (put_column df n v) = length v"
  by (cases df) (auto simp: put_column_def columns_def nrows_def)

lemma nrows_reindexed: "df \<noteq> [] \<Longrightarrow> nrows (reindexed df n) = n"
  by (cases df) (auto simp: reindexed_def nrows_def)

lemma map_of_reindexed:
  "map_of (reindexed df n) k = map_option (\<lambda>vs. replicate n NaN) (map_of df k)"
  by (induction df) (auto simp: reindexed_def)

lemma get_column_assigned_same: "get_column (assigned df n v) n = Inr v"
  by (simp add: assigned_def get_column_put_column_same)

lemma get_column_assigned_other:
  assumes "k \<noteq> n"
  shows "get_column (assigned df n v) k =
       (if nrows df = 0 \<and> v \<noteq> []
        then (case get_column df k of Inl e \<Rightarrow> Inl e | Inr vs \<Rightarrow> Inr (replicate (length v) NaN))
        else get_column df k)"
proof (cases "nrows df = 0 \<and> v \<noteq> []")
  case True
  then have "assigned df n v = put_column (reindexed df (length v)) n v"
    by (simp add: assigned_def)
  with assms have
    "get_column (assigned df n v) k = get_column (reindexed df (length v)) k"
    by (simp add: get_column_put_column_other)
  with True show ?thesis
    by (simp add: get_column_def map_of_reindexed split: option.splits)
next
  case False
  then have "assigned df n v = put_column df n v"
    by (auto simp: assigned_def)
  with assms False show ?thesis
    by (auto simp: get_column_put_column_other)
qed

lemma assigned_nonempty: "assigned df n v \<noteq> []"
  by (simp add: assigned_def put_column_nonempty)

lemma assigned_plain: "0 < nrows df \<or> v = [] \<Longrightarrow> assigned df n v = put_column df n v"
  by (auto simp: assigned_def)

lemma nrows_assigned:
  assumes "nrows df = 0 \<or> length v = nrows df"
  shows "nrows (assigned df n v) = length v"
proof (cases "nrows df = 0 \<and> v \<noteq> []")
  case True
  then have "assigned df n v = put_column (reindexed df (length v)) n v"
    by (simp add: assigned_def)
  moreover have "reindexed df (length v) = [] \<or> length v = nrows (reindexed df (length v))"
  proof (cases "df = []")
    case True
    then show ?thesis by (simp add: reindexed_def)
  next
    case False
    then show ?thesis by (simp add: nrows_reindexed)
  qed
  ultimately show ?thesis
    by (simp add: nrows_put_column)
next
  case False
  then have p: "assigned df n v = put_column df n v"
    by (auto simp: assigned_def)
  from False assms have "df = [] \<or> length v = nrows df"
    by auto
  with p show ?thesis
    by (simp add: nrows_put_column)
qed

lemma length_max_axis1: "max_axis1 probs = Inr cs \<Longrightarrow> length cs = length probs"
  by (induction probs arbitrary: cs) (auto split: sum.splits)

lemma set_column_Inr:
  "set_column df n v = Inr df' \<longleftrightarrow>
     (nrows df = 0 \<or> length v = nrows df) \<and> df' = assigned df n v"
  by (auto simp: set_column_def assigned_def)

lemma write_file_Done:
  "write_file path content s = Done s' \<longleftrightarrow>
     \<not> List.member (unwritable s) path \<and> s' = s\<lparr>files := (files s)(path \<mapsto> content)\<rparr>"
  by (auto simp: write_file_def)

lemma predict_csv_Done:
  assumes "predict_csv m pd df s = Done s'"
  shows "\<exists>preds probs confidence.
      predict m df = Inr preds \<and> predict_proba m df = Inr probs \<and>
      max_axis1 probs = Inr confidence \<and>
      (nrows df = 0 \<or> length preds = nrows df) \<and>
      (preds = [] \<or> length confidence = length preds) \<and>
      \<not> List.member (unwritable s) ''unknown_predictions.csv'' \<and>
      s' = s\<lparr>page := page s @
               [Markdown card_open, Subheader (brain_icon @ '' Prediction Results''),
                Dataframe (augmented df preds confidence),
                DownloadButton (down_icon @ '' Download unknown_predictions.csv'')
                  (to_csv pd (augmented df preds confidence)) ''unknown_predictions.csv''
                  ''text/csv'',
                Markdown ''</div>''],
             files := (files s)(''unknown_predictions.csv'' \<mapsto>
                          to_csv pd (augmented df preds confidence)),
             csv_df := Some (augmented df preds confidence)\<rparr>"
proof -
  from assms obtain preds where p: "predict m df = Inr preds"
    by (cases "predict m df") (simp_all add: predict_csv_def)
  from assms p obtain probs where q: "predict_proba m df = Inr probs"
    by (cases "predict_proba m df") (simp_all add: predict_csv_def)
  define df1 where "df1 = assigned df ''prediction'' (map IntV preds)"
  from assms p q have l1: "nrows df = 0 \<or> length preds = nrows df"
    by (cases "set_column df ''prediction'' (map IntV preds)")
       (simp_all add: predict_csv_def set_column_Inr)
  then have s1: "set_column df ''prediction'' (map IntV preds) = Inr df1"
    by (simp add: set_column_Inr df1_def)
  have g1: "get_column df1 ''prediction'' = Inr (map IntV preds)"
    by (simp add: df1_def get_column_assigned_same)
  define df2 where
    "df2 = assigned df1 ''risk_label'' (series_map risk_label_dict (map IntV preds))"
  have n1: "nrows df1 = length preds"
    using l1 by (simp add: df1_def nrows_assigned)
  have s2: "set_column df1 ''risk_label'' (series_map risk_label_dict (map IntV preds)) =
      Inr df2"
    using n1 by (simp add: set_column_Inr df2_def series_map_def)
  have n2: "nrows df2 = length preds"
    using n1 by (simp add: df2_def nrows_assigned series_map_def)
  from assms p q s1 g1 s2 obtain confidence where c: "max_axis1 probs = Inr confidence"
    by (cases "max_axis1 probs") (simp_all add: predict_csv_def)
  define df3 where "df3 = assigned df2 ''confidence'' (map FloatV confidence)"
  from assms p q s1 g1 s2 c have l3: "preds = [] \<or> length confidence = length preds"
    using n2
    by (cases "set_column df2 ''confidence'' (map FloatV confidence)")
       (simp_all add: predict_csv_def set_column_Inr)
  then have s3: "set_column df2 ''confidence'' (map FloatV confidence) = Inr df3"
    using n2 by (simp add: set_column_Inr df3_def)
  have a: "df3 = augmented df preds confidence"
    by (simp add: df3_def df2_def df1_def augmented_def)
  from assms p q s1 g1 s2 c s3 obtain s4 where
    w: "write_file ''unknown_predictions.csv'' (to_csv pd df3) (s\<lparr>csv_df := Some df3\<rparr>) =
        Done s4"
    by (cases "write_file ''unknown_predictions.csv'' (to_csv pd df3)
          (s\<lparr>csv_df := Some df3\<rparr>)")
       (simp_all add: predict_csv_def)
  from w have u: "\<not> List.member (unwritable s) ''unknown_predictions.csv''"
    and s4: "s4 = s\<lparr>csv_df := Some df3,
                     files := (files s)(''unknown_predictions.csv'' \<mapsto> to_csv pd df3)\<rparr>"
    by (simp_all add: write_file_Done)
  from assms p q s1 g1 s2 c s3 w have
    "s' = emit (Markdown ''</div>'')
               (emit (DownloadButton (down_icon @ '' Download unknown_predictions.csv'')
                        (to_csv pd df3) ''unknown_predictions.csv'' ''text/csv'')
               (emit (Dataframe df3)
               (emit (Subheader (brain_icon @ '' Prediction Results''))
               (emit (Markdown card_open) s4))))"
    by (simp add: predict_csv_def)
  with s4 a have "s' = s\<lparr>page := page s @
               [Markdown card_open, Subheader (brain_icon @ '' Prediction Results''),
                Dataframe (augmented df preds confidence),
                DownloadButton (down_icon @ '' Download unknown_predictions.csv'')
                  (to_csv pd (augmented df preds confidence)) ''unknown_predictions.csv''
                  ''text/csv'',
                Markdown ''</div>''],
             files := (files s)(''unknown_predictions.csv'' \<mapsto>
                          to_csv pd (augmented df preds confidence)),
             csv_df := Some (augmented df preds confidence)\<rparr>"
    by (simp add: emit_def)
  with p q c l1 l3 u show ?thesis by blast
qed


subsection \<open>Runs that raise nothing\<close>

lemma csv_try_body_Done:
  assumes "csv_try_body m pd f True s = Done s'"
  shows "\<exists>df preds probs confidence.
      read_csv pd f = Inr df \<and> predict m df = Inr preds \<and>
      predict_proba m df = Inr probs \<and> max_axis1 probs = Inr confidence \<and>
      (nrows df = 0 \<or> length preds = nrows df) \<and>
      (preds = [] \<or> length confidence = length preds) \<and>
      csv_df s' = Some (augmented df preds confidence) \<and>
      files s' = (files s)(''unknown_predictions.csv'' \<mapsto>
                     to_csv pd (augmented df preds confidence)) \<and>
      page s' = page s @
        [Markdown card_open, Subheader (page_icon @ '' Uploaded CSV''), Dataframe df,
         Markdown ''</div>'', Button (chart_icon @ '' Predict CSV''),
         Markdown card_open, Subheader (brain_icon @ '' Prediction Results''),
         Dataframe (augmented df preds confidence),
         DownloadButton (down_icon @ '' Download unknown_predictions.csv'')
           (to_csv pd (augmented df preds confidence)) ''unknown_predictions.csv''
           ''text/csv'',
         Markdown ''</div>'']"
proof -
  from assms obtain df where r: "read_csv pd f = Inr df"
    by (cases "read_csv pd f") (simp_all add: csv_try_body_def)
  define s1 where
    "s1 = s\<lparr>csv_df := Some df,
            page := page s @
              [Markdown card_open, Subheader (page_icon @ '' Uploaded CSV''), Dataframe df,
               Markdown ''</div>'', Button (chart_icon @ '' Predict CSV'')]\<rparr>"
  from assms r have "predict_csv m pd df s1 = Done s'"
    by (simp add: csv_try_body_def s1_def emit_def)
  from predict_csv_Done [OF this] obtain preds probs confidence where
    h: "predict m df = Inr preds" "predict_proba m df = Inr probs"
       "max_axis1 probs = Inr confidence" "nrows df = 0 \<or> length preds = nrows df"
       "preds = [] \<or> length confidence = length preds"
       "s' = s1\<lparr>page := page s1 @
               [Markdown card_open, Subheader (brain_icon @ '' Prediction Results''),
                Dataframe (augmented df preds confidence),
                DownloadButton (down_icon @ '' Download unknown_predictions.csv'')
                  (to_csv pd (augmented df preds confidence)) ''unknown_predictions.csv''
                  ''text/csv'',
                Markdown ''</div>''],
             files := (files s1)(''unknown_predictions.csv'' \<mapsto>
                          to_csv pd (augmented df preds confidence)),
             csv_df := Some (augmented df preds confidence)\<rparr>"
    by (elim exE conjE)
  from h(6) have
    "csv_df s' = Some (augmented df preds confidence)"
    "files s' = (files s)(''unknown_predictions.csv'' \<mapsto>
                     to_csv pd (augmented df preds confidence))"
    "page s' = page s @
        [Markdown card_open, Subheader (page_icon @ '' Uploaded CSV''), Dataframe df,
         Markdown ''</div>'', Button (chart_icon @ '' Predict CSV''),
         Markdown card_open, Subheader (brain_icon @ '' Prediction Results''),
         Dataframe (augmented df preds confidence),
         DownloadButton (down_icon @ '' Download unknown_predictions.csv'')
           (to_csv pd (augmented df preds confidence)) ''unknown_predictions.csv''
           ''text/csv'',
         Markdown ''</div>'']"
    by (simp_all add: s1_def)
  with r h(1-5) show ?thesis by blast
qed

lemma batch_output_Some:
  assumes "batch_output m pd f s = Some out"
  shows "\<exists>df preds probs confidence.
      read_csv pd f = Inr df \<and> predict m df = Inr preds \<and>
      predict_proba m df = Inr probs \<and> max_axis1 probs = Inr confidence \<and>
      (nrows df = 0 \<or> length preds = nrows df) \<and>
      (preds = [] \<or> length confidence = length preds) \<and>
      out = augmented df preds confidence"
proof -
  from assms obtain s' where d: "csv_try_body m pd f True s = Done s'" and o: "csv_df s' = Some out"
    by (cases "csv_try_body m pd f True s") (simp_all add: batch_output_def)
  from csv_try_body_Done [OF d] o show ?thesis
    by force
qed

lemma confidence_column:
  "get_column (augmented df preds confidence) ''confidence'' = Inr (map FloatV confidence)"
  by (simp add: augmented_def get_column_assigned_same)

lemma nrows_before_confidence:
  assumes "nrows df = 0 \<or> length preds = nrows df"
  shows "nrows (assigned (assigned df ''prediction'' (map IntV preds))
            ''risk_label'' (series_map risk_label_dict (map IntV preds))) = length preds"
proof -
  have "nrows (assigned df ''prediction'' (map IntV preds)) = length preds"
    using assms by (simp add: nrows_assigned)
  then show ?thesis
    by (simp add: nrows_assigned series_map_def)
qed

lemma nrows_augmented:
  assumes "nrows df = 0 \<or> length preds = nrows df"
    and "preds = [] \<or> length confidence = length preds"
  shows "nrows (augmented df preds confidence) = length confidence"
  using assms nrows_before_confidence [OF assms(1)]
  by (auto simp: augmented_def nrows_assigned)

lemma get_column_assigned_kept:
  assumes "k \<noteq> n" and "get_column df k = Inr vs"
  shows "get_column (assigned df n v) k =
     Inr (if nrows df = 0 \<and> v \<noteq> [] then replicate (length v) NaN else vs)"
  using assms by (simp add: get_column_assigned_other)

lemma columns_before_confidence:
  assumes "nrows df = 0 \<or> length preds = nrows df"
  shows "get_column (assigned (assigned df ''prediction'' (map IntV preds))
            ''risk_label'' (series_map risk_label_dict (map IntV preds))) ''prediction'' =
           Inr (map IntV preds)"
    and "get_column (assigned (assigned df ''prediction'' (map IntV preds))
            ''risk_label'' (series_map risk_label_dict (map IntV preds))) ''risk_label'' =
           Inr (series_map risk_label_dict (map IntV preds))"
proof -
  define df1 where "df1 = assigned df ''prediction'' (map IntV preds)"
  define ls where "ls = series_map risk_label_dict (map IntV preds)"
  have n: "nrows df1 = length preds"
    using assms by (simp add: df1_def nrows_assigned)
  have l: "length ls = length preds"
    by (simp add: ls_def series_map_def)
  have g: "get_column df1 ''prediction'' = Inr (map IntV preds)"
    by (simp add: df1_def get_column_assigned_same)
  have k: "\<not> (nrows df1 = 0 \<and> ls \<noteq> [])"
    using n l by auto
  have "get_column (assigned df1 ''risk_label'' ls) ''prediction'' = Inr (map IntV preds)"
    using get_column_assigned_kept [OF _ g, of "''risk_label''" ls] k by simp
  then show "get_column (assigned (assigned df ''prediction'' (map IntV preds))
            ''risk_label'' (series_map risk_label_dict (map IntV preds))) ''prediction'' =
           Inr (map IntV preds)"
    by (simp add: df1_def ls_def)
  show "get_column (assigned (assigned df ''prediction'' (map IntV preds))
            ''risk_label'' (series_map risk_label_dict (map IntV preds))) ''risk_label'' =
           Inr (series_map risk_label_dict (map IntV preds))"
    by (simp add: get_column_assigned_same)
qed

lemma prediction_column:
  assumes "nrows df = 0 \<or> length preds = nrows df"
  shows "get_column (augmented df preds confidence) ''prediction'' =
     Inr (if preds = [] \<and> confidence \<noteq> [] then replicate (length confidence) NaN
          else map IntV preds)"
proof -
  define df2 where
    "df2 = assigned (assigned df ''prediction'' (map IntV preds))
            ''risk_label'' (series_map risk_label_dict (map IntV preds))"
  have g: "get_column df2 ''prediction'' = Inr (map IntV preds)"
    using columns_before_confidence(1) [OF assms] by (simp add: df2_def)
  have n: "nrows df2 = length preds"
    using nrows_before_confidence [OF assms] by (simp add: df2_def)
  have "get_column (assigned df2 ''confidence'' (map FloatV confidence)) ''prediction'' =
     Inr (if preds = [] \<and> confidence \<noteq> [] then replicate (length confidence) NaN
          else map IntV preds)"
    using get_column_assigned_kept [OF _ g, of "''confidence''" "map FloatV confidence"] n
    by simp
  then show ?thesis
    by (simp add: augmented_def df2_def)
qed

lemma risk_label_column:
  assumes "nrows df = 0 \<or> length preds = nrows df"
  shows "get_column (augmented df preds confidence) ''risk_label'' =
     Inr (if preds = [] \<and> confidence \<noteq> [] then replicate (length confidence) NaN
          else series_map risk_label_dict (map IntV preds))"
proof -
  define df2 where
    "df2 = assigned (assigned df ''prediction'' (map IntV preds))
            ''risk_label'' (series_map risk_label_dict (map IntV preds))"
  have g: "get_column df2 ''risk_label'' = Inr (series_map risk_label_dict (map IntV preds))"
    using columns_before_confidence(2) [OF assms] by (simp add: df2_def)
  have n: "nrows df2 = length preds"
    using nrows_before_confidence [OF assms] by (simp add: df2_def)
  have "get_column (assigned df2 ''confidence'' (map FloatV confidence)) ''risk_label'' =
     Inr (if preds = [] \<and> confidence \<noteq> [] then replicate (length confidence) NaN
          else series_map risk_label_dict (map IntV preds))"
    using get_column_assigned_kept [OF _ g, of "''confidence''" "map FloatV confidence"] n
    by simp
  then show ?thesis
    by (simp add: augmented_def df2_def)
qed

lemma risk_label_of_prediction:
  "series_map risk_label_dict [IntV p] =
     [if p = 0 then StrV ''Low Risk'' else if p = 1 then StrV ''High Risk'' else NaN]"
  by (simp add: series_map_def risk_label_dict_def)

lemma risk_label_nth:
  "i < length preds \<Longrightarrow>
     series_map risk_label_dict (map IntV preds) ! i =
       (if preds ! i = 0 then StrV ''Low Risk''
        else if preds ! i = 1 then StrV ''High Risk'' else NaN)"
  by (simp add: series_map_def risk_label_dict_def)

lemma row_max_pair: "row_max [p0, p1] = Inr (max p0 p1)"
  by (simp add: max.commute)

lemma max_axis1_nth:
  "max_axis1 probs = Inr cs \<Longrightarrow> i < length probs \<Longrightarrow> row_max (probs ! i) = Inr (cs ! i)"
proof (induction probs arbitrary: cs i)
  case Nil
  then show ?case by simp
next
  case (Cons r rs)
  from Cons.prems(1) obtain c cs' where
    c: "row_max r = Inr c" and cs': "max_axis1 rs = Inr cs'" and eq: "cs = c # cs'"
    by (auto split: sum.splits)
  show ?case
  proof (cases i)
    case 0
    with c eq show ?thesis by simp
  next
    case (Suc j)
    with Cons.prems(2) have "j < length rs" by simp
    from Cons.IH [OF cs' this] Suc eq show ?thesis by simp
  qed
qed

lemma toy_run_two_rows:
  "batch_output toy_model toy_pandas two_rows_csv fresh_run =
     Some [(''bmi_group'', [IntV 2, IntV 4]), (''prediction'', [IntV 0, IntV 1]),
           (''risk_label'', [StrV ''Low Risk'', StrV ''High Risk'']),
           (''confidence'', [FloatV (7/8), FloatV (3/4)])]"
  by (simp add: batch_output_def csv_try_body_def predict_csv_def toy_model_def toy_pandas_def
      toy_read_csv_def toy_predict_def toy_predict_proba_def fresh_run_def emit_def
      set_column_def put_column_def reindexed_def get_column_def columns_def nrows_def
      series_map_def
      risk_label_dict_def write_file_def two_rows_csv_def)

text \<open>
  Claim C3. In the table that a batch prediction leaves, the columns prediction and
  risk_label have one cell per row, and in every row whose prediction is 0 or 1 the
  prediction is 0 exactly when the risk_label is Low Risk and it is 1 exactly when the
  risk_label is High Risk.
\<close>

theorem risk_label_consistent:
  assumes "batch_output m pd f s = Some out"
  shows "\<exists>ps ls.
      get_column out ''prediction'' = Inr ps \<and> get_column out ''risk_label'' = Inr ls \<and>
      length ps = nrows out \<and> length ls = nrows out \<and>
      (\<forall>i<nrows out. ps ! i = IntV 0 \<or> ps ! i = IntV 1 \<longrightarrow>
         (ps ! i = IntV 0 \<longleftrightarrow> ls ! i = StrV ''Low Risk'') \<and>
         (ps ! i = IntV 1 \<longleftrightarrow> ls ! i = StrV ''High Risk''))"
proof -
  from batch_output_Some [OF assms] obtain df preds probs confidence where
    l: "nrows df = 0 \<or> length preds = nrows df" "preds = [] \<or> length confidence = length preds"
    and out: "out = augmented df preds confidence"
    by blast
  have n: "nrows out = length confidence"
    using l out by (simp add: nrows_augmented)
  show ?thesis
  proof (cases "preds = [] \<and> confidence \<noteq> []")
    case True
    with l(1) out have
      "get_column out ''prediction'' = Inr (replicate (length confidence) NaN)"
      "get_column out ''risk_label'' = Inr (replicate (length confidence) NaN)"
      by (simp_all add: prediction_column risk_label_column)
    with n show ?thesis by simp
  next
    case False
    with l(2) have len: "length confidence = length preds"
      by auto
    from False l(1) out have
      c: "get_column out ''prediction'' = Inr (map IntV preds)"
         "get_column out ''risk_label'' = Inr (series_map risk_label_dict (map IntV preds))"
      by (auto simp: prediction_column risk_label_column)
    have "\<forall>i<length preds. map IntV preds ! i = IntV 0 \<or> map IntV preds ! i = IntV 1 \<longrightarrow>
         (map IntV preds ! i = IntV 0 \<longleftrightarrow>
            series_map risk_label_dict (map IntV preds) ! i = StrV ''Low Risk'') \<and>
         (map IntV preds ! i = IntV 1 \<longleftrightarrow>
            series_map risk_label_dict (map IntV preds) ! i = StrV ''High Risk'')"
      by (simp add: risk_label_nth)
    with n len c show ?thesis
      by (simp add: series_map_def)
  qed
qed

theorem risk_label_consistent_witness:
  "batch_output toy_model toy_pandas two_rows_csv fresh_run =
     Some [(''bmi_group'', [IntV 2, IntV 4]), (''prediction'', [IntV 0, IntV 1]),
           (''risk_label'', [StrV ''Low Risk'', StrV ''High Risk'']),
           (''confidence'', [FloatV (7/8), FloatV (3/4)])] \<and>
   (\<exists>ps ls.
      get_column [(''bmi_group'', [IntV 2, IntV 4]), (''prediction'', [IntV 0, IntV 1]),
           (''risk_label'', [StrV ''Low Risk'', StrV ''High Risk'']),
           (''confidence'', [FloatV (7/8), FloatV (3/4)])] ''prediction'' = Inr ps \<and>
      get_column [(''bmi_group'', [IntV 2, IntV 4]), (''prediction'', [IntV 0, IntV 1]),
           (''risk_label'', [StrV ''Low Risk'', StrV ''High Risk'']),
           (''confidence'', [FloatV (7/8), FloatV (3/4)])] ''risk_label'' = Inr ls \<and>
      ps ! 0 = IntV 0 \<and> ls ! 0 = StrV ''Low Risk'' \<and>
      ps ! 1 = IntV 1 \<and> ls ! 1 = StrV ''High Risk'')"
  using risk_label_consistent [OF toy_run_two_rows] toy_run_two_rows
  by (simp add: get_column_def nrows_def)

text \<open>
  Claim C4. In the table that a batch prediction leaves, the column confidence has one cell
  per row of the array that \<^verbatim>\<open>predict_proba\<close> returned, and in every row where that array
  holds two class probabilities the cell is the larger of the two.
\<close>

theorem confidence_is_row_max:
  assumes "batch_output m pd f s = Some out"
  shows "\<exists>df probs cs.
      read_csv pd f = Inr df \<and> predict_proba m df = Inr probs \<and>
      get_column out ''confidence'' = Inr cs \<and>
      length cs = nrows out \<and> length probs = nrows out \<and>
      (\<forall>i<nrows out. \<forall>p0 p1. probs ! i = [p0, p1] \<longrightarrow> cs ! i = FloatV (max p0 p1))"
proof -
  from batch_output_Some [OF assms] obtain df preds probs confidence where
    r: "read_csv pd f = Inr df" and q: "predict_proba m df = Inr probs"
    and c: "max_axis1 probs = Inr confidence"
    and l: "nrows df = 0 \<or> length preds = nrows df"
      "preds = [] \<or> length confidence = length preds"
    and out: "out = augmented df preds confidence"
    by blast
  have n: "nrows out = length confidence"
    using l out by (simp add: nrows_augmented)
  have lp: "length probs = length confidence"
    using length_max_axis1 [OF c] by simp
  have "\<forall>i<length probs. \<forall>p0 p1. probs ! i = [p0, p1] \<longrightarrow> confidence ! i = max p0 p1"
  proof (intro allI impI)
    fix i p0 p1
    assume i: "i < length probs" and row: "probs ! i = [p0, p1]"
    from max_axis1_nth [OF c i] row have "row_max [p0, p1] = Inr (confidence ! i)"
      by simp
    then show "confidence ! i = max p0 p1"
      by (simp add: max.commute)
  qed
  with r q n l lp out show ?thesis
    by (simp add: confidence_column)
qed

theorem confidence_is_row_max_witness:
  "batch_output toy_model toy_pandas two_rows_csv fresh_run =
     Some [(''bmi_group'', [IntV 2, IntV 4]), (''prediction'', [IntV 0, IntV 1]),
           (''risk_label'', [StrV ''Low Risk'', StrV ''High Risk'']),
           (''confidence'', [FloatV (7/8), FloatV (3/4)])] \<and>
   predict_proba toy_model [(''bmi_group'', [IntV 2, IntV 4])] = Inr [[7/8, 1/8], [1/4, 3/4]] \<and>
   get_column [(''bmi_group'', [IntV 2, IntV 4]), (''prediction'', [IntV 0, IntV 1]),
           (''risk_label'', [StrV ''Low Risk'', StrV ''High Risk'']),
           (''confidence'', [FloatV (7/8), FloatV (3/4)])] ''confidence'' =
     Inr [FloatV (max (7/8) (1/8)), FloatV (max (1/4) (3/4))]"
proof -
  have p: "predict_proba toy_model [(''bmi_group'', [IntV 2, IntV 4])] =
      Inr [[7/8, 1/8], [1/4, 3/4]]"
    by (simp add: toy_model_def toy_predict_proba_def get_column_def)
  have r: "read_csv toy_pandas two_rows_csv = Inr [(''bmi_group'', [IntV 2, IntV 4])]"
    by (simp add: toy_pandas_def toy_read_csv_def two_rows_csv_def)
  from confidence_is_row_max [OF toy_run_two_rows] p r toy_run_two_rows show ?thesis
    by (simp add: get_column_def nrows_def)
qed

text \<open>
  Claim C10. In the table that a batch prediction leaves, the confidence of every row
  whose two class probabilities are not negative and add up to 1 is at least 1/2.
\<close>

theorem confidence_at_least_half:
  assumes "batch_output m pd f s = Some out"
    and "read_csv pd f = Inr df"
    and "predict_proba m df = Inr probs"
    and "i < nrows out"
    and "probs ! i = [p0, p1]"
    and "0 \<le> p0" and "0 \<le> p1" and "p0 + p1 = 1"
  shows "\<exists>cs c. get_column out ''confidence'' = Inr cs \<and> length cs = nrows out \<and>
      cs ! i = FloatV c \<and> 1 / 2 \<le> c"
proof -
  from batch_output_Some [OF assms(1)] assms(2,3) obtain preds confidence where
    c: "max_axis1 probs = Inr confidence"
    and l: "nrows df = 0 \<or> length preds = nrows df"
      "preds = [] \<or> length confidence = length preds"
    and out: "out = augmented df preds confidence"
    by auto
  have n: "nrows out = length confidence"
    using l out by (simp add: nrows_augmented)
  have lp: "length probs = length confidence"
    using length_max_axis1 [OF c] by simp
  with n l assms(4) have i: "i < length probs" by simp
  from max_axis1_nth [OF c i] assms(5) have "row_max [p0, p1] = Inr (confidence ! i)"
    by simp
  then have m: "confidence ! i = max p0 p1"
    by (simp add: max.commute)
  from assms(6-8) have "1 / 2 \<le> max p0 p1"
    by (simp add: max_def)
  with m n l lp i out show ?thesis
    by (simp add: confidence_column)
qed

theorem confidence_at_least_half_witness:
  "batch_output toy_model toy_pandas two_rows_csv fresh_run =
     Some [(''bmi_group'', [IntV 2, IntV 4]), (''prediction'', [IntV 0, IntV 1]),
           (''risk_label'', [StrV ''Low Risk'', StrV ''High Risk'']),
           (''confidence'', [FloatV (7/8), FloatV (3/4)])] \<and>
   read_csv toy_pandas two_rows_csv = Inr [(''bmi_group'', [IntV 2, IntV 4])] \<and>
   predict_proba toy_model [(''bmi_group'', [IntV 2, IntV 4])] = Inr [[7/8, 1/8], [1/4, 3/4]] \<and>
   (0::real) \<le> 1/4 \<and> (0::real) \<le> 3/4 \<and> (1/4 + 3/4 = (1::real)) \<and>
   (\<exists>c. [FloatV (7/8), FloatV (3/4)] ! 1 = FloatV c \<and> 1 / 2 \<le> c)"
proof -
  have p: "predict_proba toy_model [(''bmi_group'', [IntV 2, IntV 4])] =
      Inr [[7/8, 1/8], [1/4, 3/4]]"
    by (simp add: toy_model_def toy_predict_proba_def get_column_def)
  have r: "read_csv toy_pandas two_rows_csv = Inr [(''bmi_group'', [IntV 2, IntV 4])]"
    by (simp add: toy_pandas_def toy_read_csv_def two_rows_csv_def)
  have "\<exists>cs c. get_column [(''bmi_group'', [IntV 2, IntV 4]), (''prediction'', [IntV 0, IntV 1]),
           (''risk_label'', [StrV ''Low Risk'', StrV ''High Risk'']),
           (''confidence'', [FloatV (7/8), FloatV (3/4)])] ''confidence'' = Inr cs \<and>
      length cs = nrows [(''bmi_group'', [IntV 2, IntV 4]), (''prediction'', [IntV 0, IntV 1]),
           (''risk_label'', [StrV ''Low Risk'', StrV ''High Risk'']),
           (''confidence'', [FloatV (7/8), FloatV (3/4)])] \<and>
      cs ! 1 = FloatV c \<and> 1 / 2 \<le> c"
    by (rule confidence_at_least_half [OF toy_run_two_rows r p, of 1 "1/4" "3/4"])
       (simp_all add: nrows_def)
  with p r toy_run_two_rows show ?thesis
    by (simp add: get_column_def)
qed

subsection \<open>The two label conventions\<close>

lemma risk_message_label:
  "risk_message pred =
     (if pred = 1 then ErrorBox (warning_icon @ '' '' @ single_label pred @ '' of Breast Cancer'')
      else SuccessBox (check_icon @ '' '' @ single_label pred @ '' of Breast Cancer''))"
  by (simp add: risk_message_def single_label_def)

text \<open>
  Claim C5, as amended. For the prediction values 0 and 1, the label that the single-record
  path displays (High Risk when the prediction is 1, Low Risk otherwise, between the icon
  and the words of Breast Cancer) is the risk_label that the batch path assigns by its map.
\<close>

theorem label_convention_shared:
  assumes "pred = 0 \<or> pred = 1"
  shows "series_map risk_label_dict [IntV pred] = [StrV (single_label pred)] \<and>
     risk_message pred =
       (if pred = 1
        then ErrorBox (warning_icon @ '' '' @ single_label pred @ '' of Breast Cancer'')
        else SuccessBox (check_icon @ '' '' @ single_label pred @ '' of Breast Cancer''))"
  using assms by (auto simp: risk_label_of_prediction risk_message_label single_label_def)

theorem label_convention_shared_witness:
  "((1::int) = 0 \<or> (1::int) = 1) \<and>
   series_map risk_label_dict [IntV 1] = [StrV ''High Risk''] \<and>
   risk_message 1 = ErrorBox (warning_icon @ '' High Risk of Breast Cancer'') \<and>
   ((0::int) = 0 \<or> (0::int) = 1) \<and>
   series_map risk_label_dict [IntV 0] = [StrV ''Low Risk''] \<and>
   risk_message 0 = SuccessBox (check_icon @ '' Low Risk of Breast Cancer'')"
  using label_convention_shared [of 1] label_convention_shared [of 0]
  by (simp add: single_label_def)

theorem label_convention_counterexample:
  "risk_message 2 = SuccessBox (check_icon @ '' Low Risk of Breast Cancer'') \<and>
   single_label 2 = ''Low Risk'' \<and>
   series_map risk_label_dict [IntV 2] = [NaN] \<and>
   series_map risk_label_dict [IntV 2] \<noteq> [StrV (single_label 2)]"
  by (simp add: risk_message_def single_label_def risk_label_of_prediction)

subsection \<open>The columns of the output\<close>

lemma augmented_plain:
  assumes "nrows df = 0 \<or> length preds = nrows df"
    and "0 < nrows df \<or> (preds = [] \<and> confidence = [])"
  shows "augmented df preds confidence =
     put_column
       (put_column (put_column df ''prediction'' (map IntV preds))
          ''risk_label'' (series_map risk_label_dict (map IntV preds)))
       ''confidence'' (map FloatV confidence)"
proof -
  define df1 where "df1 = assigned df ''prediction'' (map IntV preds)"
  define df2 where
    "df2 = assigned df1 ''risk_label'' (series_map risk_label_dict (map IntV preds))"
  have n1: "nrows df1 = length preds"
    using assms(1) by (simp add: df1_def nrows_assigned)
  have n2: "nrows df2 = length preds"
    using n1 by (simp add: df2_def nrows_assigned series_map_def)
  from assms(2) have "0 < nrows df \<or> map IntV preds = []"
    by auto
  then have e1: "df1 = put_column df ''prediction'' (map IntV preds)"
    by (simp add: df1_def assigned_plain)
  from n1 have "0 < nrows df1 \<or> series_map risk_label_dict (map IntV preds) = []"
    by (cases preds) (simp_all add: series_map_def)
  then have e2: "df2 = put_column df1 ''risk_label'' (series_map risk_label_dict (map IntV preds))"
    by (simp add: df2_def assigned_plain)
  from assms n2 have "0 < nrows df2 \<or> map FloatV confidence = []"
    by auto
  then have "assigned df2 ''confidence'' (map FloatV confidence) =
      put_column df2 ''confidence'' (map FloatV confidence)"
    by (rule assigned_plain)
  with e1 e2 show ?thesis
    by (simp add: augmented_def df1_def df2_def)
qed

lemma augmented_fresh:
  assumes "nrows df = 0 \<or> length preds = nrows df"
    and "0 < nrows df \<or> (preds = [] \<and> confidence = [])"
    and "\<not> List.member (columns df) ''prediction''"
    and "\<not> List.member (columns df) ''risk_label''"
    and "\<not> List.member (columns df) ''confidence''"
  shows "augmented df preds confidence =
     df @ [(''prediction'', map IntV preds),
           (''risk_label'', series_map risk_label_dict (map IntV preds)),
           (''confidence'', map FloatV confidence)]"
  using assms(3-5) augmented_plain [OF assms(1,2)]
  by (simp add: put_column_def columns_def)

lemma map_of_append_left:
  "List.member (map fst xs) k \<Longrightarrow> map_of (xs @ ys) k = map_of xs k"
  by (induction xs) auto

lemma toy_run_predicted:
  "batch_output toy_model toy_pandas predicted_csv fresh_run =
     Some [(''bmi_group'', [IntV 4]), (''prediction'', [IntV 1]),
           (''risk_label'', [StrV ''High Risk'']), (''confidence'', [FloatV (3/4)])]"
  by (simp add: batch_output_def csv_try_body_def predict_csv_def toy_model_def toy_pandas_def
      toy_read_csv_def toy_predict_def toy_predict_proba_def fresh_run_def emit_def
      set_column_def put_column_def reindexed_def get_column_def columns_def nrows_def
      series_map_def risk_label_dict_def write_file_def two_rows_csv_def wrong_column_csv_def
      predicted_csv_def)

lemma toy_run_header_only:
  "batch_output (stub_model [0, 1] [[1/2, 1/2], [1/4, 3/4]]) toy_pandas header_only_csv
       fresh_run =
     Some [(''bmi_group'', [NaN, NaN]), (''prediction'', [IntV 0, IntV 1]),
           (''risk_label'', [StrV ''Low Risk'', StrV ''High Risk'']),
           (''confidence'', [FloatV (1/2), FloatV (3/4)])]"
  by (simp add: batch_output_def csv_try_body_def predict_csv_def stub_model_def toy_pandas_def
      toy_read_csv_def fresh_run_def emit_def
      set_column_def put_column_def reindexed_def get_column_def columns_def nrows_def
      series_map_def risk_label_dict_def write_file_def two_rows_csv_def wrong_column_csv_def
      predicted_csv_def header_only_csv_def)

lemma toy_read_two_rows:
  "read_csv toy_pandas two_rows_csv = Inr [(''bmi_group'', [IntV 2, IntV 4])]"
  by (simp add: toy_pandas_def toy_read_csv_def two_rows_csv_def)

lemma toy_read_predicted:
  "read_csv toy_pandas predicted_csv =
     Inr [(''bmi_group'', [IntV 4]), (''prediction'', [IntV 7])]"
  by (simp add: toy_pandas_def toy_read_csv_def two_rows_csv_def wrong_column_csv_def
      predicted_csv_def)

lemma toy_read_header_only:
  "read_csv toy_pandas header_only_csv = Inr [(''bmi_group'', [])]"
  by (simp add: toy_pandas_def toy_read_csv_def two_rows_csv_def wrong_column_csv_def
      predicted_csv_def header_only_csv_def)

lemma toy_run_no_rows:
  "batch_output toy_model toy_pandas header_only_csv fresh_run =
     Some [(''bmi_group'', []), (''prediction'', []), (''risk_label'', []),
           (''confidence'', [])]"
  by (simp add: batch_output_def csv_try_body_def predict_csv_def toy_model_def toy_pandas_def
      toy_read_csv_def toy_predict_def toy_predict_proba_def fresh_run_def emit_def
      set_column_def put_column_def reindexed_def get_column_def columns_def nrows_def
      series_map_def risk_label_dict_def write_file_def two_rows_csv_def wrong_column_csv_def
      predicted_csv_def header_only_csv_def)

lemma toy_model_no_rows:
  "predict toy_model [(''bmi_group'', [])] = Inr [] \<and>
   predict_proba toy_model [(''bmi_group'', [])] = Inr []"
  by (simp add: toy_model_def toy_predict_def toy_predict_proba_def get_column_def)

text \<open>
  Claim C7, as amended. When a batch prediction raises nothing, the uploaded table has no
  column named prediction, risk_label or confidence, and the uploaded table has at least
  one row (or it has none and the pipeline returns two empty arrays for it), the columns of
  the output table are the columns of the uploaded table followed by prediction, risk_label
  and confidence, and every column of the uploaded table stands in the output where it
  stood, with the cells it had.
\<close>

theorem output_columns_appended:
  assumes "batch_output m pd f s = Some out"
    and "read_csv pd f = Inr df"
    and "\<not> List.member (columns df) ''prediction''"
    and "\<not> List.member (columns df) ''risk_label''"
    and "\<not> List.member (columns df) ''confidence''"
    and "0 < nrows df \<or> (predict m df = Inr [] \<and> predict_proba m df = Inr [])"
  shows "columns out = columns df @ [''prediction'', ''risk_label'', ''confidence''] \<and>
     take (length df) out = df \<and> length out = length df + 3 \<and>
     (\<forall>name. List.member (columns df) name \<longrightarrow> get_column out name = get_column df name)"
proof -
  from batch_output_Some [OF assms(1)] assms(2) obtain preds probs confidence where
    p: "predict m df = Inr preds" and q: "predict_proba m df = Inr probs"
    and c: "max_axis1 probs = Inr confidence"
    and l: "nrows df = 0 \<or> length preds = nrows df"
    and out: "out = augmented df preds confidence"
    by auto
  from assms(6) p q c have r: "0 < nrows df \<or> (preds = [] \<and> confidence = [])"
    by auto
  from out augmented_fresh [OF l r assms(3-5)] have
    o: "out = df @ [(''prediction'', map IntV preds),
           (''risk_label'', series_map risk_label_dict (map IntV preds)),
           (''confidence'', map FloatV confidence)]"
    by simp
  have k: "\<forall>name. List.member (columns df) name \<longrightarrow> get_column out name = get_column df name"
  proof (intro allI impI)
    fix name
    assume "List.member (columns df) name"
    then have m: "List.member (map fst df) name"
      by (simp only: columns_def)
    show "get_column out name = get_column df name"
      by (simp only: o get_column_def map_of_append_left [OF m])
  qed
  from o have "columns out = columns df @ [''prediction'', ''risk_label'', ''confidence'']"
    and "take (length df) out = df" and "length out = length df + 3"
    by (simp_all add: columns_def)
  with k show ?thesis
    by blast
qed

theorem output_columns_appended_witness:
  "batch_output toy_model toy_pandas two_rows_csv fresh_run =
     Some [(''bmi_group'', [IntV 2, IntV 4]), (''prediction'', [IntV 0, IntV 1]),
           (''risk_label'', [StrV ''Low Risk'', StrV ''High Risk'']),
           (''confidence'', [FloatV (7/8), FloatV (3/4)])] \<and>
   read_csv toy_pandas two_rows_csv = Inr [(''bmi_group'', [IntV 2, IntV 4])] \<and>
   \<not> List.member (columns [(''bmi_group'', [IntV 2, IntV 4])]) ''prediction'' \<and>
   \<not> List.member (columns [(''bmi_group'', [IntV 2, IntV 4])]) ''risk_label'' \<and>
   \<not> List.member (columns [(''bmi_group'', [IntV 2, IntV 4])]) ''confidence'' \<and>
   0 < nrows [(''bmi_group'', [IntV 2, IntV 4])] \<and>
   columns [(''bmi_group'', [IntV 2, IntV 4]), (''prediction'', [IntV 0, IntV 1]),
           (''risk_label'', [StrV ''Low Risk'', StrV ''High Risk'']),
           (''confidence'', [FloatV (7/8), FloatV (3/4)])] =
     [''bmi_group'', ''prediction'', ''risk_label'', ''confidence''] \<and>
   take 1 [(''bmi_group'', [IntV 2, IntV 4]), (''prediction'', [IntV 0, IntV 1]),
           (''risk_label'', [StrV ''Low Risk'', StrV ''High Risk'']),
           (''confidence'', [FloatV (7/8), FloatV (3/4)])] =
     [(''bmi_group'', [IntV 2, IntV 4])] \<and>
   batch_output toy_model toy_pandas header_only_csv fresh_run =
     Some [(''bmi_group'', []), (''prediction'', []), (''risk_label'', []),
           (''confidence'', [])] \<and>
   read_csv toy_pandas header_only_csv = Inr [(''bmi_group'', [])] \<and>
   predict toy_model [(''bmi_group'', [])] = Inr [] \<and>
   predict_proba toy_model [(''bmi_group'', [])] = Inr [] \<and>
   columns [(''bmi_group'', []), (''prediction'', []), (''risk_label'', []),
           (''confidence'', [])] =
     columns [(''bmi_group'', [])] @ [''prediction'', ''risk_label'', ''confidence'']"
proof -
  have a': "\<not> List.member (columns [(''bmi_group'', [])]) ''prediction''"
    and b': "\<not> List.member (columns [(''bmi_group'', [])]) ''risk_label''"
    and c': "\<not> List.member (columns [(''bmi_group'', [])]) ''confidence''"
    by (simp_all add: columns_def)
  have n': "0 < nrows [(''bmi_group'', [])] \<or>
      (predict toy_model [(''bmi_group'', [])] = Inr [] \<and>
       predict_proba toy_model [(''bmi_group'', [])] = Inr [])"
    using toy_model_no_rows by simp
  note second = output_columns_appended [OF toy_run_no_rows toy_read_header_only a' b' c' n']
  have a: "\<not> List.member (columns [(''bmi_group'', [IntV 2, IntV 4])]) ''prediction''"
    and b: "\<not> List.member (columns [(''bmi_group'', [IntV 2, IntV 4])]) ''risk_label''"
    and c: "\<not> List.member (columns [(''bmi_group'', [IntV 2, IntV 4])]) ''confidence''"
    by (simp_all add: columns_def)
  have n: "0 < nrows [(''bmi_group'', [IntV 2, IntV 4])] \<or>
      (predict toy_model [(''bmi_group'', [IntV 2, IntV 4])] = Inr [] \<and>
       predict_proba toy_model [(''bmi_group'', [IntV 2, IntV 4])] = Inr [])"
    by (simp add: nrows_def)
  from output_columns_appended [OF toy_run_two_rows toy_read_two_rows a b c n] second
    toy_run_two_rows toy_read_two_rows toy_run_no_rows toy_read_header_only
    toy_model_no_rows a b c
  show ?thesis by (simp add: columns_def nrows_def)
qed

theorem output_columns_counterexample:
  "read_csv toy_pandas predicted_csv =
     Inr [(''bmi_group'', [IntV 4]), (''prediction'', [IntV 7])] \<and>
   batch_output toy_model toy_pandas predicted_csv fresh_run =
     Some [(''bmi_group'', [IntV 4]), (''prediction'', [IntV 1]),
           (''risk_label'', [StrV ''High Risk'']), (''confidence'', [FloatV (3/4)])] \<and>
   columns [(''bmi_group'', [IntV 4]), (''prediction'', [IntV 1]),
           (''risk_label'', [StrV ''High Risk'']), (''confidence'', [FloatV (3/4)])] \<noteq>
     columns [(''bmi_group'', [IntV 4]), (''prediction'', [IntV 7])] @
       [''prediction'', ''risk_label'', ''confidence''] \<and>
   get_column [(''bmi_group'', [IntV 4]), (''prediction'', [IntV 1]),
           (''risk_label'', [StrV ''High Risk'']), (''confidence'', [FloatV (3/4)])]
       ''prediction'' \<noteq>
     get_column [(''bmi_group'', [IntV 4]), (''prediction'', [IntV 7])] ''prediction'' \<and>
   read_csv toy_pandas header_only_csv = Inr [(''bmi_group'', [])] \<and>
   batch_output (stub_model [0, 1] [[1/2, 1/2], [1/4, 3/4]]) toy_pandas header_only_csv
       fresh_run =
     Some [(''bmi_group'', [NaN, NaN]), (''prediction'', [IntV 0, IntV 1]),
           (''risk_label'', [StrV ''Low Risk'', StrV ''High Risk'']),
           (''confidence'', [FloatV (1/2), FloatV (3/4)])] \<and>
   get_column [(''bmi_group'', [NaN, NaN]), (''prediction'', [IntV 0, IntV 1]),
           (''risk_label'', [StrV ''Low Risk'', StrV ''High Risk'']),
           (''confidence'', [FloatV (1/2), FloatV (3/4)])] ''bmi_group'' \<noteq>
     get_column [(''bmi_group'', [])] ''bmi_group''"
  using toy_run_predicted toy_read_predicted toy_run_header_only toy_read_header_only
  by (simp add: columns_def get_column_def)

subsection \<open>The file written and the download offered\<close>

lemma toy_try_two_rows:
  "csv_try_body toy_model toy_pandas two_rows_csv True fresh_run =
     Done \<lparr>page =
        [Markdown card_open, Subheader (page_icon @ '' Uploaded CSV''),
         Dataframe [(''bmi_group'', [IntV 2, IntV 4])],
         Markdown ''</div>'', Button (chart_icon @ '' Predict CSV''),
         Markdown card_open, Subheader (brain_icon @ '' Prediction Results''),
         Dataframe [(''bmi_group'', [IntV 2, IntV 4]), (''prediction'', [IntV 0, IntV 1]),
           (''risk_label'', [StrV ''Low Risk'', StrV ''High Risk'']),
           (''confidence'', [FloatV (7/8), FloatV (3/4)])],
         DownloadButton (down_icon @ '' Download unknown_predictions.csv'')
           ''bmi_group,prediction,risk_label,confidence,'' ''unknown_predictions.csv''
           ''text/csv'',
         Markdown ''</div>''],
       files = [''unknown_predictions.csv'' \<mapsto> ''bmi_group,prediction,risk_label,confidence,''],
       unwritable = [],
       csv_df = Some [(''bmi_group'', [IntV 2, IntV 4]), (''prediction'', [IntV 0, IntV 1]),
           (''risk_label'', [StrV ''Low Risk'', StrV ''High Risk'']),
           (''confidence'', [FloatV (7/8), FloatV (3/4)])]\<rparr>"
  by (simp add: csv_try_body_def predict_csv_def toy_model_def toy_pandas_def
      toy_read_csv_def toy_predict_def toy_predict_proba_def fresh_run_def emit_def
      set_column_def put_column_def reindexed_def get_column_def columns_def nrows_def
      series_map_def
      risk_label_dict_def write_file_def two_rows_csv_def toy_to_csv_def)

text \<open>
  Claim C8. When a batch prediction raises nothing, the text written to the file
  unknown_predictions.csv and the data of the download button are the same: the
  serialisation without index of the table that the run leaves in \<^verbatim>\<open>csv_df\<close>, which is
  also the table shown on the page. The download button is the last but one element of
  the page and carries the file name unknown_predictions.csv.
\<close>

theorem file_and_download_same:
  assumes "csv_try_body m pd f True s = Done s'"
  shows "\<exists>out shown.
      csv_df s' = Some out \<and>
      files s' ''unknown_predictions.csv'' = Some (to_csv pd out) \<and>
      page s' = page s @ shown @
        [Dataframe out,
         DownloadButton (down_icon @ '' Download unknown_predictions.csv'') (to_csv pd out)
           ''unknown_predictions.csv'' ''text/csv'',
         Markdown ''</div>''] \<and>
      length shown = 7"
proof -
  from csv_try_body_Done [OF assms] obtain df preds probs confidence where
    h: "csv_df s' = Some (augmented df preds confidence)"
       "files s' = (files s)(''unknown_predictions.csv'' \<mapsto>
                     to_csv pd (augmented df preds confidence))"
       "page s' = page s @
        [Markdown card_open, Subheader (page_icon @ '' Uploaded CSV''), Dataframe df,
         Markdown ''</div>'', Button (chart_icon @ '' Predict CSV''),
         Markdown card_open, Subheader (brain_icon @ '' Prediction Results''),
         Dataframe (augmented df preds confidence),
         DownloadButton (down_icon @ '' Download unknown_predictions.csv'')
           (to_csv pd (augmented df preds confidence)) ''unknown_predictions.csv''
           ''text/csv'',
         Markdown ''</div>'']"
    by blast
  show ?thesis
    apply (rule exI [of _ "augmented df preds confidence"])
    apply (rule exI [of _ "[Markdown card_open, Subheader (page_icon @ '' Uploaded CSV''),
         Dataframe df, Markdown ''</div>'', Button (chart_icon @ '' Predict CSV''),
         Markdown card_open, Subheader (brain_icon @ '' Prediction Results'')]"])
    using h by simp
qed

theorem file_and_download_same_witness:
  "\<exists>s'. csv_try_body toy_model toy_pandas two_rows_csv True fresh_run = Done s' \<and>
      files s' ''unknown_predictions.csv'' = Some ''bmi_group,prediction,risk_label,confidence,'' \<and>
      page s' ! 8 =
        DownloadButton (down_icon @ '' Download unknown_predictions.csv'')
          ''bmi_group,prediction,risk_label,confidence,'' ''unknown_predictions.csv''
          ''text/csv''"
  using file_and_download_same [OF toy_try_two_rows] toy_try_two_rows
  by simp

subsection \<open>Runs that raise\<close>

lemma uploaded_card:
  "emit (Button (chart_icon @ '' Predict CSV''))
     (emit (Markdown ''</div>'')
     (emit (Dataframe df)
     (emit (Subheader (page_icon @ '' Uploaded CSV''))
     (emit (Markdown card_open) (s\<lparr>csv_df := Some df\<rparr>))))) =
   s\<lparr>csv_df := Some df,
     page := page s @
       [Markdown card_open, Subheader (page_icon @ '' Uploaded CSV''), Dataframe df,
        Markdown ''</div>'', Button (chart_icon @ '' Predict CSV'')]\<rparr>"
  by (simp add: emit_def)

lemma raise_at_read_csv:
  "read_csv pd f = Inl e \<Longrightarrow> csv_try_body m pd f clicked s = Raised e s"
  by (simp add: csv_try_body_def)

lemma raise_at_predict:
  "read_csv pd f = Inr df \<Longrightarrow> predict m df = Inl e \<Longrightarrow>
     csv_try_body m pd f True s =
       Raised e (s\<lparr>csv_df := Some df,
         page := page s @
           [Markdown card_open, Subheader (page_icon @ '' Uploaded CSV''), Dataframe df,
            Markdown ''</div>'', Button (chart_icon @ '' Predict CSV'')]\<rparr>)"
  by (simp add: csv_try_body_def uploaded_card predict_csv_def)

lemma raise_at_predict_proba:
  "read_csv pd f = Inr df \<Longrightarrow> predict m df = Inr preds \<Longrightarrow> predict_proba m df = Inl e \<Longrightarrow>
     csv_try_body m pd f True s =
       Raised e (s\<lparr>csv_df := Some df,
         page := page s @
           [Markdown card_open, Subheader (page_icon @ '' Uploaded CSV''), Dataframe df,
            Markdown ''</div>'', Button (chart_icon @ '' Predict CSV'')]\<rparr>)"
  by (simp add: csv_try_body_def uploaded_card predict_csv_def)

lemma raise_at_prediction_column:
  "read_csv pd f = Inr df \<Longrightarrow> predict m df = Inr preds \<Longrightarrow>
   predict_proba m df = Inr probs \<Longrightarrow>
   set_column df ''prediction'' (map IntV preds) = Inl e \<Longrightarrow>
     \<exists>s1. csv_try_body m pd f True s = Raised e s1"
  by (simp add: csv_try_body_def uploaded_card predict_csv_def)

lemma risk_label_assigned:
  assumes "set_column df ''prediction'' (map IntV preds) = Inr df1"
  shows "get_column df1 ''prediction'' = Inr (map IntV preds) \<and>
     set_column df1 ''risk_label'' (series_map risk_label_dict (map IntV preds)) =
       Inr (assigned df1 ''risk_label'' (series_map risk_label_dict (map IntV preds)))"
proof -
  from assms have l: "nrows df = 0 \<or> length preds = nrows df"
    and d: "df1 = assigned df ''prediction'' (map IntV preds)"
    by (simp_all add: set_column_Inr)
  from l d have "nrows df1 = length preds"
    by (simp add: nrows_assigned)
  with d show ?thesis
    by (simp add: get_column_assigned_same set_column_Inr series_map_def)
qed

lemma raise_at_max:
  assumes "read_csv pd f = Inr df" and "predict m df = Inr preds"
    and "predict_proba m df = Inr probs"
    and "set_column df ''prediction'' (map IntV preds) = Inr df1"
    and "max_axis1 probs = Inl e"
  shows "\<exists>s1. csv_try_body m pd f True s = Raised e s1"
  using assms risk_label_assigned [OF assms(4)]
  by (simp add: csv_try_body_def uploaded_card predict_csv_def)

lemma raise_at_confidence_column:
  assumes "read_csv pd f = Inr df" and "predict m df = Inr preds"
    and "predict_proba m df = Inr probs"
    and "set_column df ''prediction'' (map IntV preds) = Inr df1"
    and "max_axis1 probs = Inr confidence"
    and "set_column (assigned df1 ''risk_label'' (series_map risk_label_dict (map IntV preds)))
           ''confidence'' (map FloatV confidence) = Inl e"
  shows "\<exists>s1. csv_try_body m pd f True s = Raised e s1"
  using assms risk_label_assigned [OF assms(4)]
  by (simp add: csv_try_body_def uploaded_card predict_csv_def)

lemma raise_at_write:
  assumes "read_csv pd f = Inr df" and "predict m df = Inr preds"
    and "predict_proba m df = Inr probs"
    and "set_column df ''prediction'' (map IntV preds) = Inr df1"
    and "max_axis1 probs = Inr confidence"
    and "set_column (assigned df1 ''risk_label'' (series_map risk_label_dict (map IntV preds)))
           ''confidence'' (map FloatV confidence) = Inr df3"
    and "List.member (unwritable s) ''unknown_predictions.csv''"
  shows "\<exists>s1. csv_try_body m pd f True s =
      Raised (PyException ''PermissionError''
        (''[Errno 13] Permission denied: '' @ quoted ''unknown_predictions.csv'')) s1"
  using assms risk_label_assigned [OF assms(4)]
  by (simp add: csv_try_body_def uploaded_card predict_csv_def write_file_def)

lemma raised_is_caught:
  "csv_try_body m pd f clicked s = Raised e s1 \<Longrightarrow> is_Exception e \<Longrightarrow>
     csv_upload m pd (Some f) clicked s =
       Done (s1\<lparr>page := page s1 @ [ErrorBox (cross_icon @ '' CSV Error: '' @ exc_str e)]\<rparr>)"
  by (simp add: csv_upload_def csv_error_def emit_def)

lemma raised_passes:
  "csv_try_body m pd f clicked s = Raised e s1 \<Longrightarrow> \<not> is_Exception e \<Longrightarrow>
     csv_upload m pd (Some f) clicked s = Raised e s1"
  by (simp add: csv_upload_def)

lemma csv_upload_ends:
  "(\<exists>s'. csv_upload m pd (Some f) clicked s = Done s') \<or>
   (\<exists>e' s'. csv_upload m pd (Some f) clicked s = Raised e' s' \<and> \<not> is_Exception e' \<and>
       csv_try_body m pd f clicked s = Raised e' s')"
  by (cases "csv_try_body m pd f clicked s") (simp_all add: csv_upload_def)

lemma toy_read_wrong_column:
  "read_csv toy_pandas wrong_column_csv = Inr [(''bmi'', [IntV 2])]"
  by (simp add: toy_pandas_def toy_read_csv_def two_rows_csv_def wrong_column_csv_def)

lemma toy_predict_wrong_column:
  "predict toy_model [(''bmi'', [IntV 2])] = Inl (PyException ''KeyError'' (quoted ''bmi_group''))"
  by (simp add: toy_model_def toy_predict_def get_column_def)

lemma half_model_two_rows:
  "predict half_model [(''bmi_group'', [IntV 2, IntV 4])] = Inr [0, 1] \<and>
   predict_proba half_model [(''bmi_group'', [IntV 2, IntV 4])] =
     Inl (PyException ''AttributeError'' ''predict_proba'')"
  by (simp add: half_model_def toy_predict_def get_column_def)

lemma interrupted_model_two_rows:
  "predict interrupted_model [(''bmi_group'', [IntV 2, IntV 4])] =
     Inl (PyBaseException ''KeyboardInterrupt'' [])"
  by (simp add: interrupted_model_def)

lemma exiting_model_two_rows:
  "predict exiting_model [(''bmi_group'', [IntV 2, IntV 4])] = Inr [0, 1] \<and>
   predict_proba exiting_model [(''bmi_group'', [IntV 2, IntV 4])] =
     Inl (PyBaseException ''SystemExit'' ''1'')"
  by (simp add: exiting_model_def toy_predict_def get_column_def)

text \<open>
  Claim C9, as amended. If the table was parsed and \<^verbatim>\<open>predict\<close> raises, or \<^verbatim>\<open>predict\<close>
  returns and \<^verbatim>\<open>predict_proba\<close> raises, then \<^verbatim>\<open>csv_df\<close> is still the parsed table (no
  column appended) and the files are as they were (unknown_predictions.csv is not
  written). If the exception is an instance of \<^verbatim>\<open>Exception\<close>, the run ends normally and
  the error message is the only element that the page gets after the Predict CSV button;
  any other exception leaves the batch path uncaught, and the page gets no element after
  the button.
\<close>

theorem predict_failure_atomic:
  assumes "read_csv pd f = Inr df"
    and "predict m df = Inl e \<or> (\<exists>preds. predict m df = Inr preds \<and> predict_proba m df = Inl e)"
  shows "\<exists>s'. csv_upload m pd (Some f) True s = (if is_Exception e then Done s' else Raised e s') \<and>
      csv_df s' = Some df \<and> files s' = files s \<and> unwritable s' = unwritable s \<and>
      page s' = page s @
        [Markdown card_open, Subheader (page_icon @ '' Uploaded CSV''), Dataframe df,
         Markdown ''</div>'', Button (chart_icon @ '' Predict CSV'')] @
        (if is_Exception e then [ErrorBox (cross_icon @ '' CSV Error: '' @ exc_str e)] else [])"
proof -
  from assms have r:
    "csv_try_body m pd f True s =
       Raised e (s\<lparr>csv_df := Some df,
         page := page s @
           [Markdown card_open, Subheader (page_icon @ '' Uploaded CSV''), Dataframe df,
            Markdown ''</div>'', Button (chart_icon @ '' Predict CSV'')]\<rparr>)"
    using raise_at_predict raise_at_predict_proba by blast
  show ?thesis
  proof (cases "is_Exception e")
    case True
    from raised_is_caught [OF r True] True show ?thesis
      by simp
  next
    case False
    from raised_passes [OF r False] False show ?thesis
      by simp
  qed
qed

theorem predict_failure_atomic_witness:
  "read_csv toy_pandas wrong_column_csv = Inr [(''bmi'', [IntV 2])] \<and>
   predict toy_model [(''bmi'', [IntV 2])] = Inl (PyException ''KeyError'' (quoted ''bmi_group'')) \<and>
   (\<exists>s'. csv_upload toy_model toy_pandas (Some wrong_column_csv) True fresh_run = Done s' \<and>
      csv_df s' = Some [(''bmi'', [IntV 2])] \<and> files s' = Map.empty \<and>
      page s' =
        [Markdown card_open, Subheader (page_icon @ '' Uploaded CSV''),
         Dataframe [(''bmi'', [IntV 2])],
         Markdown ''</div>'', Button (chart_icon @ '' Predict CSV''),
         ErrorBox (cross_icon @ '' CSV Error: '' @ quoted ''bmi_group'')]) \<and>
   read_csv toy_pandas two_rows_csv = Inr [(''bmi_group'', [IntV 2, IntV 4])] \<and>
   predict half_model [(''bmi_group'', [IntV 2, IntV 4])] = Inr [0, 1] \<and>
   predict_proba half_model [(''bmi_group'', [IntV 2, IntV 4])] =
     Inl (PyException ''AttributeError'' ''predict_proba'') \<and>
   (\<exists>s'. csv_upload half_model toy_pandas (Some two_rows_csv) True fresh_run = Done s' \<and>
      csv_df s' = Some [(''bmi_group'', [IntV 2, IntV 4])] \<and> files s' = Map.empty \<and>
      page s' =
        [Markdown card_open, Subheader (page_icon @ '' Uploaded CSV''),
         Dataframe [(''bmi_group'', [IntV 2, IntV 4])],
         Markdown ''</div>'', Button (chart_icon @ '' Predict CSV''),
         ErrorBox (cross_icon @ '' CSV Error: predict_proba'')]) \<and>
   predict interrupted_model [(''bmi_group'', [IntV 2, IntV 4])] =
     Inl (PyBaseException ''KeyboardInterrupt'' []) \<and>
   (\<exists>s'. csv_upload interrupted_model toy_pandas (Some two_rows_csv) True fresh_run =
        Raised (PyBaseException ''KeyboardInterrupt'' []) s' \<and>
      csv_df s' = Some [(''bmi_group'', [IntV 2, IntV 4])] \<and> files s' = Map.empty \<and>
      page s' =
        [Markdown card_open, Subheader (page_icon @ '' Uploaded CSV''),
         Dataframe [(''bmi_group'', [IntV 2, IntV 4])],
         Markdown ''</div>'', Button (chart_icon @ '' Predict CSV'')])"
proof -
  have a: "predict toy_model [(''bmi'', [IntV 2])] =
        Inl (PyException ''KeyError'' (quoted ''bmi_group'')) \<or>
      (\<exists>preds. predict toy_model [(''bmi'', [IntV 2])] = Inr preds \<and>
         predict_proba toy_model [(''bmi'', [IntV 2])] =
           Inl (PyException ''KeyError'' (quoted ''bmi_group'')))"
    using toy_predict_wrong_column by simp
  have b: "predict half_model [(''bmi_group'', [IntV 2, IntV 4])] =
        Inl (PyException ''AttributeError'' ''predict_proba'') \<or>
      (\<exists>preds. predict half_model [(''bmi_group'', [IntV 2, IntV 4])] = Inr preds \<and>
         predict_proba half_model [(''bmi_group'', [IntV 2, IntV 4])] =
           Inl (PyException ''AttributeError'' ''predict_proba''))"
    using half_model_two_rows by simp
  have c: "predict interrupted_model [(''bmi_group'', [IntV 2, IntV 4])] =
        Inl (PyBaseException ''KeyboardInterrupt'' []) \<or>
      (\<exists>preds. predict interrupted_model [(''bmi_group'', [IntV 2, IntV 4])] = Inr preds \<and>
         predict_proba interrupted_model [(''bmi_group'', [IntV 2, IntV 4])] =
           Inl (PyBaseException ''KeyboardInterrupt'' []))"
    using interrupted_model_two_rows by simp
  from predict_failure_atomic [OF toy_read_wrong_column a, of fresh_run]
    predict_failure_atomic [OF toy_read_two_rows b, of fresh_run]
    predict_failure_atomic [OF toy_read_two_rows c, of fresh_run]
    toy_read_wrong_column toy_predict_wrong_column toy_read_two_rows half_model_two_rows
    interrupted_model_two_rows
  show ?thesis
    by (auto simp: fresh_run_def)
qed

theorem predict_failure_counterexample:
  "read_csv toy_pandas two_rows_csv = Inr [(''bmi_group'', [IntV 2, IntV 4])] \<and>
   predict exiting_model [(''bmi_group'', [IntV 2, IntV 4])] = Inr [0, 1] \<and>
   predict_proba exiting_model [(''bmi_group'', [IntV 2, IntV 4])] =
     Inl (PyBaseException ''SystemExit'' ''1'') \<and>
   csv_upload exiting_model toy_pandas (Some two_rows_csv) True fresh_run =
     Raised (PyBaseException ''SystemExit'' ''1'')
       \<lparr>page =
          [Markdown card_open, Subheader (page_icon @ '' Uploaded CSV''),
           Dataframe [(''bmi_group'', [IntV 2, IntV 4])],
           Markdown ''</div>'', Button (chart_icon @ '' Predict CSV'')],
        files = Map.empty, unwritable = [],
        csv_df = Some [(''bmi_group'', [IntV 2, IntV 4])]\<rparr>"
proof -
  have "csv_try_body exiting_model toy_pandas two_rows_csv True fresh_run =
     Raised (PyBaseException ''SystemExit'' ''1'')
       (fresh_run\<lparr>csv_df := Some [(''bmi_group'', [IntV 2, IntV 4])],
          page := page fresh_run @
          [Markdown card_open, Subheader (page_icon @ '' Uploaded CSV''),
           Dataframe [(''bmi_group'', [IntV 2, IntV 4])],
           Markdown ''</div>'', Button (chart_icon @ '' Predict CSV'')]\<rparr>)"
    using toy_read_two_rows exiting_model_two_rows
    by (intro raise_at_predict_proba) simp_all
  from raised_passes [OF this] toy_read_two_rows exiting_model_two_rows show ?thesis
    by (simp add: fresh_run_def)
qed

lemma set_column_raises_Exception: "set_column df n v = Inl e \<Longrightarrow> is_Exception e"
  by (auto simp: set_column_def split: if_splits)

lemma max_axis1_raises_Exception: "max_axis1 probs = Inl e \<Longrightarrow> is_Exception e"
proof (induction probs)
  case Nil
  then show ?case by simp
next
  case (Cons r rs)
  then show ?case
    by (cases r) (auto split: sum.splits)
qed

text \<open>
  Claim C6, as amended. Whatever instance of \<^verbatim>\<open>Exception\<close> the body of the \<^verbatim>\<open>try\<close>
  raises is caught: the batch path ends normally and the page gets, after what it held when
  the exception was raised, an error box with the text CSV Error and the string of the
  exception. An exception that is no instance of \<^verbatim>\<open>Exception\<close> is not caught and leaves
  the batch path; the batch path ends in no other way. The body raises when the parser
  raises, and, once the button is clicked, when \<^verbatim>\<open>predict\<close> raises, when
  \<^verbatim>\<open>predict_proba\<close> raises, when the assignment of the prediction column raises, when the
  row maximum raises, when the assignment of the confidence column raises, and when the
  file cannot be written; what the assignments, the row maximum and the write raise are
  instances of \<^verbatim>\<open>Exception\<close>.
\<close>

theorem csv_error_caught:
  "(csv_try_body m pd f clicked s = Raised e s1 \<and> is_Exception e \<longrightarrow>
      csv_upload m pd (Some f) clicked s =
        Done (s1\<lparr>page := page s1 @ [ErrorBox (cross_icon @ '' CSV Error: '' @ exc_str e)]\<rparr>)) \<and>
   (csv_try_body m pd f clicked s = Raised e s1 \<and> \<not> is_Exception e \<longrightarrow>
      csv_upload m pd (Some f) clicked s = Raised e s1) \<and>
   ((\<exists>s'. csv_upload m pd (Some f) clicked s = Done s') \<or>
    (\<exists>e' s'. csv_upload m pd (Some f) clicked s = Raised e' s' \<and> \<not> is_Exception e' \<and>
        csv_try_body m pd f clicked s = Raised e' s')) \<and>
   (is_Exception e \<and> read_csv pd f = Inl e \<longrightarrow> surfaced m pd f clicked s e) \<and>
   (is_Exception e \<and> clicked \<and> read_csv pd f = Inr df \<and> predict m df = Inl e \<longrightarrow>
      surfaced m pd f clicked s e) \<and>
   (is_Exception e \<and> clicked \<and> read_csv pd f = Inr df \<and> predict m df = Inr preds \<and>
    predict_proba m df = Inl e \<longrightarrow>
      surfaced m pd f clicked s e) \<and>
   (clicked \<and> read_csv pd f = Inr df \<and> predict m df = Inr preds \<and>
    predict_proba m df = Inr probs \<and>
    set_column df ''prediction'' (map IntV preds) = Inl e \<longrightarrow>
      surfaced m pd f clicked s e) \<and>
   (clicked \<and> read_csv pd f = Inr df \<and> predict m df = Inr preds \<and>
    predict_proba m df = Inr probs \<and>
    set_column df ''prediction'' (map IntV preds) = Inr df1 \<and>
    max_axis1 probs = Inl e \<longrightarrow>
      surfaced m pd f clicked s e) \<and>
   (clicked \<and> read_csv pd f = Inr df \<and> predict m df = Inr preds \<and>
    predict_proba m df = Inr probs \<and>
    set_column df ''prediction'' (map IntV preds) = Inr df1 \<and>
    max_axis1 probs = Inr confidence \<and>
    set_column (assigned df1 ''risk_label'' (series_map risk_label_dict (map IntV preds)))
      ''confidence'' (map FloatV confidence) = Inl e \<longrightarrow>
      surfaced m pd f clicked s e) \<and>
   (clicked \<and> read_csv pd f = Inr df \<and> predict m df = Inr preds \<and>
    predict_proba m df = Inr probs \<and>
    set_column df ''prediction'' (map IntV preds) = Inr df1 \<and>
    max_axis1 probs = Inr confidence \<and>
    set_column (assigned df1 ''risk_label'' (series_map risk_label_dict (map IntV preds)))
      ''confidence'' (map FloatV confidence) = Inr df3 \<and>
    List.member (unwritable s) ''unknown_predictions.csv'' \<longrightarrow>
      surfaced m pd f clicked s
        (PyException ''PermissionError''
          (''[Errno 13] Permission denied: '' @ quoted ''unknown_predictions.csv'')))"
proof (intro conjI impI)
  assume "csv_try_body m pd f clicked s = Raised e s1 \<and> is_Exception e"
  then show "csv_upload m pd (Some f) clicked s =
      Done (s1\<lparr>page := page s1 @ [ErrorBox (cross_icon @ '' CSV Error: '' @ exc_str e)]\<rparr>)"
    using raised_is_caught by blast
next
  assume "csv_try_body m pd f clicked s = Raised e s1 \<and> \<not> is_Exception e"
  then show "csv_upload m pd (Some f) clicked s = Raised e s1"
    using raised_passes by blast
next
  show "(\<exists>s'. csv_upload m pd (Some f) clicked s = Done s') \<or>
    (\<exists>e' s'. csv_upload m pd (Some f) clicked s = Raised e' s' \<and> \<not> is_Exception e' \<and>
        csv_try_body m pd f clicked s = Raised e' s')"
    by (rule csv_upload_ends)
next
  assume "is_Exception e \<and> read_csv pd f = Inl e"
  then show "surfaced m pd f clicked s e"
    using raise_at_read_csv raised_is_caught by blast
next
  assume "is_Exception e \<and> clicked \<and> read_csv pd f = Inr df \<and> predict m df = Inl e"
  then have x: "is_Exception e" and c: "clicked = True"
    and h: "\<exists>s1. csv_try_body m pd f True s = Raised e s1"
    using raise_at_predict [of pd f] by blast+
  then show "surfaced m pd f clicked s e"
    using raised_is_caught by blast
next
  assume "is_Exception e \<and> clicked \<and> read_csv pd f = Inr df \<and> predict m df = Inr preds \<and>
    predict_proba m df = Inl e"
  then have x: "is_Exception e" and c: "clicked = True"
    and h: "\<exists>s1. csv_try_body m pd f True s = Raised e s1"
    using raise_at_predict_proba [of pd f] by blast+
  then show "surfaced m pd f clicked s e"
    using raised_is_caught by blast
next
  assume a: "clicked \<and> read_csv pd f = Inr df \<and> predict m df = Inr preds \<and>
    predict_proba m df = Inr probs \<and>
    set_column df ''prediction'' (map IntV preds) = Inl e"
  then have x: "is_Exception e"
    using set_column_raises_Exception by blast
  from a have c: "clicked = True" and h: "\<exists>s1. csv_try_body m pd f True s = Raised e s1"
    using raise_at_prediction_column [of pd f] by blast+
  with x show "surfaced m pd f clicked s e"
    using raised_is_caught by blast
next
  assume a: "clicked \<and> read_csv pd f = Inr df \<and> predict m df = Inr preds \<and>
    predict_proba m df = Inr probs \<and>
    set_column df ''prediction'' (map IntV preds) = Inr df1 \<and>
    max_axis1 probs = Inl e"
  then have x: "is_Exception e"
    using max_axis1_raises_Exception by blast
  from a have c: "clicked = True" and h: "\<exists>s1. csv_try_body m pd f True s = Raised e s1"
    using raise_at_max [of pd f] by blast+
  with x show "surfaced m pd f clicked s e"
    using raised_is_caught by blast
next
  assume a: "clicked \<and> read_csv pd f = Inr df \<and> predict m df = Inr preds \<and>
    predict_proba m df = Inr probs \<and>
    set_column df ''prediction'' (map IntV preds) = Inr df1 \<and>
    max_axis1 probs = Inr confidence \<and>
    set_column (assigned df1 ''risk_label'' (series_map risk_label_dict (map IntV preds)))
      ''confidence'' (map FloatV confidence) = Inl e"
  then have x: "is_Exception e"
    using set_column_raises_Exception by blast
  from a have c: "clicked = True" and h: "\<exists>s1. csv_try_body m pd f True s = Raised e s1"
    using raise_at_confidence_column [of pd f] by blast+
  with x show "surfaced m pd f clicked s e"
    using raised_is_caught by blast
next
  assume a: "clicked \<and> read_csv pd f = Inr df \<and> predict m df = Inr preds \<and>
    predict_proba m df = Inr probs \<and>
    set_column df ''prediction'' (map IntV preds) = Inr df1 \<and>
    max_axis1 probs = Inr confidence \<and>
    set_column (assigned df1 ''risk_label'' (series_map risk_label_dict (map IntV preds)))
      ''confidence'' (map FloatV confidence) = Inr df3 \<and>
    List.member (unwritable s) ''unknown_predictions.csv''"
  have x: "is_Exception (PyException ''PermissionError''
          (''[Errno 13] Permission denied: '' @ quoted ''unknown_predictions.csv''))"
    by simp
  from a have c: "clicked = True"
    and h: "\<exists>s1. csv_try_body m pd f True s = Raised (PyException ''PermissionError''
          (''[Errno 13] Permission denied: '' @ quoted ''unknown_predictions.csv'')) s1"
    using raise_at_write [of pd f] by blast+
  with x show "surfaced m pd f clicked s
        (PyException ''PermissionError''
          (''[Errno 13] Permission denied: '' @ quoted ''unknown_predictions.csv''))"
    using raised_is_caught by blast
qed

lemma str_nat_small: "str_nat (Suc 0) = ''1''" "str_nat (Suc (Suc 0)) = ''2''"
  by code_simp+

lemma stub_model_calls:
  "predict (stub_model preds probs) df = Inr preds"
  "predict_proba (stub_model preds probs) df = Inr probs"
  by (simp_all add: stub_model_def)

lemma toy_model_two_rows:
  "predict toy_model [(''bmi_group'', [IntV 2, IntV 4])] = Inr [0, 1]"
  "predict_proba toy_model [(''bmi_group'', [IntV 2, IntV 4])] = Inr [[7/8, 1/8], [1/4, 3/4]]"
  by (simp_all add: toy_model_def toy_predict_def toy_predict_proba_def get_column_def)

lemma two_rows_prediction_column:
  "set_column [(''bmi_group'', [IntV 2, IntV 4])] ''prediction'' (map IntV [0, 1]) =
     Inr [(''bmi_group'', [IntV 2, IntV 4]), (''prediction'', [IntV 0, IntV 1])]"
  by (simp add: set_column_def nrows_def put_column_def columns_def)

theorem csv_error_caught_witness:
  "surfaced toy_model toy_pandas [] False fresh_run
     (PyException ''EmptyDataError'' ''No columns to parse from file'') \<and>
   surfaced toy_model toy_pandas wrong_column_csv True fresh_run
     (PyException ''KeyError'' (quoted ''bmi_group'')) \<and>
   surfaced half_model toy_pandas two_rows_csv True fresh_run
     (PyException ''AttributeError'' ''predict_proba'') \<and>
   surfaced (stub_model [0] [[1/2, 1/2]]) toy_pandas two_rows_csv True fresh_run
     (PyException ''ValueError'' ''Length of values (1) does not match length of index (2)'') \<and>
   surfaced (stub_model [0, 1] [[], []]) toy_pandas two_rows_csv True fresh_run
     (PyException ''ValueError''
       ''zero-size array to reduction operation maximum which has no identity'') \<and>
   surfaced (stub_model [0, 1] [[1/2, 1/2]]) toy_pandas two_rows_csv True fresh_run
     (PyException ''ValueError'' ''Length of values (1) does not match length of index (2)'') \<and>
   surfaced toy_model toy_pandas two_rows_csv True locked_run
     (PyException ''PermissionError''
       (''[Errno 13] Permission denied: '' @ quoted ''unknown_predictions.csv''))"
proof -
  have h1: "is_Exception (PyException ''EmptyDataError'' ''No columns to parse from file'') \<and>
      read_csv toy_pandas [] =
        Inl (PyException ''EmptyDataError'' ''No columns to parse from file'')"
    by (simp add: toy_pandas_def toy_read_csv_def)
  from csv_error_caught [where m = toy_model and pd = toy_pandas and f = "[]"
      and clicked = False and s = fresh_run
      and e = "PyException ''EmptyDataError'' ''No columns to parse from file''"] h1
  have w1: "surfaced toy_model toy_pandas [] False fresh_run
     (PyException ''EmptyDataError'' ''No columns to parse from file'')"
    by blast
  have h2: "is_Exception (PyException ''KeyError'' (quoted ''bmi_group'')) \<and>
      True \<and> read_csv toy_pandas wrong_column_csv = Inr [(''bmi'', [IntV 2])] \<and>
      predict toy_model [(''bmi'', [IntV 2])] =
        Inl (PyException ''KeyError'' (quoted ''bmi_group''))"
    using toy_read_wrong_column toy_predict_wrong_column by simp
  from csv_error_caught [where m = toy_model and pd = toy_pandas and f = wrong_column_csv
      and clicked = True and s = fresh_run and df = "[(''bmi'', [IntV 2])]"
      and e = "PyException ''KeyError'' (quoted ''bmi_group'')"] h2
  have w2: "surfaced toy_model toy_pandas wrong_column_csv True fresh_run
     (PyException ''KeyError'' (quoted ''bmi_group''))"
    by blast
  have h3: "is_Exception (PyException ''AttributeError'' ''predict_proba'') \<and>
      True \<and> read_csv toy_pandas two_rows_csv = Inr [(''bmi_group'', [IntV 2, IntV 4])] \<and>
      predict half_model [(''bmi_group'', [IntV 2, IntV 4])] = Inr [0, 1] \<and>
      predict_proba half_model [(''bmi_group'', [IntV 2, IntV 4])] =
        Inl (PyException ''AttributeError'' ''predict_proba'')"
    using toy_read_two_rows half_model_two_rows by simp
  from csv_error_caught [where m = half_model and pd = toy_pandas and f = two_rows_csv
      and clicked = True and s = fresh_run and df = "[(''bmi_group'', [IntV 2, IntV 4])]"
      and preds = "[0, 1]" and e = "PyException ''AttributeError'' ''predict_proba''"] h3
  have w3: "surfaced half_model toy_pandas two_rows_csv True fresh_run
     (PyException ''AttributeError'' ''predict_proba'')"
    by blast
  have h4: "True \<and> read_csv toy_pandas two_rows_csv = Inr [(''bmi_group'', [IntV 2, IntV 4])] \<and>
      predict (stub_model [0] [[1/2, 1/2]]) [(''bmi_group'', [IntV 2, IntV 4])] = Inr [0] \<and>
      predict_proba (stub_model [0] [[1/2, 1/2]]) [(''bmi_group'', [IntV 2, IntV 4])] =
        Inr [[1/2, 1/2]] \<and>
      set_column [(''bmi_group'', [IntV 2, IntV 4])] ''prediction'' (map IntV [0]) =
        Inl (PyException ''ValueError''
          ''Length of values (1) does not match length of index (2)'')"
    using toy_read_two_rows
    by (simp add: stub_model_calls set_column_def nrows_def str_nat_small)
  from csv_error_caught [where m = "stub_model [0] [[1/2, 1/2]]" and pd = toy_pandas
      and f = two_rows_csv and clicked = True and s = fresh_run
      and df = "[(''bmi_group'', [IntV 2, IntV 4])]" and preds = "[0]"
      and probs = "[[1/2, 1/2]]"
      and e = "PyException ''ValueError''
          ''Length of values (1) does not match length of index (2)''"] h4
  have w4: "surfaced (stub_model [0] [[1/2, 1/2]]) toy_pandas two_rows_csv True fresh_run
     (PyException ''ValueError'' ''Length of values (1) does not match length of index (2)'')"
    by blast
  have h5: "True \<and> read_csv toy_pandas two_rows_csv = Inr [(''bmi_group'', [IntV 2, IntV 4])] \<and>
      predict (stub_model [0, 1] [[], []]) [(''bmi_group'', [IntV 2, IntV 4])] = Inr [0, 1] \<and>
      predict_proba (stub_model [0, 1] [[], []]) [(''bmi_group'', [IntV 2, IntV 4])] =
        Inr [[], []] \<and>
      set_column [(''bmi_group'', [IntV 2, IntV 4])] ''prediction'' (map IntV [0, 1]) =
        Inr [(''bmi_group'', [IntV 2, IntV 4]), (''prediction'', [IntV 0, IntV 1])] \<and>
      max_axis1 [[], []] =
        Inl (PyException ''ValueError''
          ''zero-size array to reduction operation maximum which has no identity'')"
    using toy_read_two_rows two_rows_prediction_column
    by (simp add: stub_model_calls)
  from csv_error_caught [where m = "stub_model [0, 1] [[], []]" and pd = toy_pandas
      and f = two_rows_csv and clicked = True and s = fresh_run
      and df = "[(''bmi_group'', [IntV 2, IntV 4])]" and preds = "[0, 1]"
      and probs = "[[], []]"
      and ?df1.0 = "[(''bmi_group'', [IntV 2, IntV 4]), (''prediction'', [IntV 0, IntV 1])]"
      and e = "PyException ''ValueError''
          ''zero-size array to reduction operation maximum which has no identity''"] h5
  have w5: "surfaced (stub_model [0, 1] [[], []]) toy_pandas two_rows_csv True fresh_run
     (PyException ''ValueError''
       ''zero-size array to reduction operation maximum which has no identity'')"
    by blast
  have h6: "True \<and> read_csv toy_pandas two_rows_csv = Inr [(''bmi_group'', [IntV 2, IntV 4])] \<and>
      predict (stub_model [0, 1] [[1/2, 1/2]]) [(''bmi_group'', [IntV 2, IntV 4])] =
        Inr [0, 1] \<and>
      predict_proba (stub_model [0, 1] [[1/2, 1/2]]) [(''bmi_group'', [IntV 2, IntV 4])] =
        Inr [[1/2, 1/2]] \<and>
      set_column [(''bmi_group'', [IntV 2, IntV 4])] ''prediction'' (map IntV [0, 1]) =
        Inr [(''bmi_group'', [IntV 2, IntV 4]), (''prediction'', [IntV 0, IntV 1])] \<and>
      max_axis1 [[1/2, 1/2]] = Inr [1/2] \<and>
      set_column
        (assigned [(''bmi_group'', [IntV 2, IntV 4]), (''prediction'', [IntV 0, IntV 1])]
           ''risk_label'' (series_map risk_label_dict (map IntV [0, 1])))
        ''confidence'' (map FloatV [1/2]) =
        Inl (PyException ''ValueError''
          ''Length of values (1) does not match length of index (2)'')"
    using toy_read_two_rows two_rows_prediction_column
    by (simp add: stub_model_calls set_column_def assigned_def put_column_def columns_def
        nrows_def str_nat_small)
  from csv_error_caught [where m = "stub_model [0, 1] [[1/2, 1/2]]" and pd = toy_pandas
      and f = two_rows_csv and clicked = True and s = fresh_run
      and df = "[(''bmi_group'', [IntV 2, IntV 4])]" and preds = "[0, 1]"
      and probs = "[[1/2, 1/2]]"
      and ?df1.0 = "[(''bmi_group'', [IntV 2, IntV 4]), (''prediction'', [IntV 0, IntV 1])]"
      and confidence = "[1/2]"
      and e = "PyException ''ValueError''
          ''Length of values (1) does not match length of index (2)''"] h6
  have w6: "surfaced (stub_model [0, 1] [[1/2, 1/2]]) toy_pandas two_rows_csv True fresh_run
     (PyException ''ValueError'' ''Length of values (1) does not match length of index (2)'')"
    by blast
  have h7: "True \<and> read_csv toy_pandas two_rows_csv = Inr [(''bmi_group'', [IntV 2, IntV 4])] \<and>
      predict toy_model [(''bmi_group'', [IntV 2, IntV 4])] = Inr [0, 1] \<and>
      predict_proba toy_model [(''bmi_group'', [IntV 2, IntV 4])] =
        Inr [[7/8, 1/8], [1/4, 3/4]] \<and>
      set_column [(''bmi_group'', [IntV 2, IntV 4])] ''prediction'' (map IntV [0, 1]) =
        Inr [(''bmi_group'', [IntV 2, IntV 4]), (''prediction'', [IntV 0, IntV 1])] \<and>
      max_axis1 [[7/8, 1/8], [1/4, 3/4]] = Inr [7/8, 3/4] \<and>
      set_column
        (assigned [(''bmi_group'', [IntV 2, IntV 4]), (''prediction'', [IntV 0, IntV 1])]
           ''risk_label'' (series_map risk_label_dict (map IntV [0, 1])))
        ''confidence'' (map FloatV [7/8, 3/4]) =
        Inr [(''bmi_group'', [IntV 2, IntV 4]), (''prediction'', [IntV 0, IntV 1]),
             (''risk_label'', [StrV ''Low Risk'', StrV ''High Risk'']),
             (''confidence'', [FloatV (7/8), FloatV (3/4)])] \<and>
      List.member (unwritable locked_run) ''unknown_predictions.csv''"
    using toy_read_two_rows two_rows_prediction_column toy_model_two_rows
    by (simp add: set_column_def assigned_def put_column_def columns_def nrows_def
        series_map_def risk_label_dict_def locked_run_def)
  from csv_error_caught [where m = toy_model and pd = toy_pandas
      and f = two_rows_csv and clicked = True and s = locked_run
      and df = "[(''bmi_group'', [IntV 2, IntV 4])]" and preds = "[0, 1]"
      and probs = "[[7/8, 1/8], [1/4, 3/4]]"
      and ?df1.0 = "[(''bmi_group'', [IntV 2, IntV 4]), (''prediction'', [IntV 0, IntV 1])]"
      and confidence = "[7/8, 3/4]"
      and ?df3.0 = "[(''bmi_group'', [IntV 2, IntV 4]), (''prediction'', [IntV 0, IntV 1]),
             (''risk_label'', [StrV ''Low Risk'', StrV ''High Risk'']),
             (''confidence'', [FloatV (7/8), FloatV (3/4)])]"] h7
  have w7: "surfaced toy_model toy_pandas two_rows_csv True locked_run
     (PyException ''PermissionError''
       (''[Errno 13] Permission denied: '' @ quoted ''unknown_predictions.csv''))"
    by blast
  from w1 w2 w3 w4 w5 w6 w7 show ?thesis
    by (intro conjI)
qed

theorem csv_error_counterexample:
  "read_csv toy_pandas two_rows_csv = Inr [(''bmi_group'', [IntV 2, IntV 4])] \<and>
   predict interrupted_model [(''bmi_group'', [IntV 2, IntV 4])] =
     Inl (PyBaseException ''KeyboardInterrupt'' []) \<and>
   csv_upload interrupted_model toy_pandas (Some two_rows_csv) True fresh_run =
     Raised (PyBaseException ''KeyboardInterrupt'' [])
       \<lparr>page =
          [Markdown card_open, Subheader (page_icon @ '' Uploaded CSV''),
           Dataframe [(''bmi_group'', [IntV 2, IntV 4])],
           Markdown ''</div>'', Button (chart_icon @ '' Predict CSV'')],
        files = Map.empty, unwritable = [],
        csv_df = Some [(''bmi_group'', [IntV 2, IntV 4])]\<rparr>"
proof -
  have "csv_try_body interrupted_model toy_pandas two_rows_csv True fresh_run =
     Raised (PyBaseException ''KeyboardInterrupt'' [])
       (fresh_run\<lparr>csv_df := Some [(''bmi_group'', [IntV 2, IntV 4])],
          page := page fresh_run @
          [Markdown card_open, Subheader (page_icon @ '' Uploaded CSV''),
           Dataframe [(''bmi_group'', [IntV 2, IntV 4])],
           Markdown ''</div>'', Button (chart_icon @ '' Predict CSV'')]\<rparr>)"
    using toy_read_two_rows interrupted_model_two_rows
    by (intro raise_at_predict) simp_all
  from raised_passes [OF this] toy_read_two_rows interrupted_model_two_rows show ?thesis
    by (simp add: fresh_run_def)
qed

end
